theory Spec2Isabelle
  imports Complex_Main "HOL-Library.AList"
begin

section \<open>The system health monitor: data model\<close>

text \<open>
  The development embeds the class \<open>SystemHealthMonitor\<close> (the health-check probes, the
  alert engine and the notification fan-out) as HOL functions. Asynchronous methods are
  modelled by the sequence of their effects: every \<open>await\<close> is run to completion before
  the next statement, which is what one invocation of the method observes. The start of
  a health-check cycle, where four probes run side by side, is modelled by the
  completions the runtime reports, in the order it reports them.
\<close>

subsection \<open>Values of the runtime\<close>

text \<open>
  A value thrown by the database driver, the process object or the notification manager
  is an \<open>Error\<close> object. The handlers of the monitor read only its \<open>message\<close>,
  a string that may be empty.
\<close>

datatype js_error = Error (error_message: string)

text \<open>The result of awaiting a call of a collaborator: it throws (\<open>Inl\<close>) or returns.\<close>

type_synonym 'a attempt = "js_error + 'a"

text \<open>The values stored under the keys of a \<open>details\<close> object or of a result row.\<close>

datatype js_value = JUndefined | JNull | JBool bool | JNum int | JStr string

text \<open>Truthiness, as the operator \<open>||\<close> tests it.\<close>

fun truthy :: "js_value \<Rightarrow> bool" where
  "truthy JUndefined = False"
| "truthy JNull = False"
| "truthy (JBool b) = b"
| "truthy (JNum n) = (n \<noteq> 0)"
| "truthy (JStr s) = (s \<noteq> [])"

type_synonym js_object = "(string \<times> js_value) list"

text \<open>
  What \<open>db.execute\<close> resolves to, read as an array of rows: \<open>(r as any[])[0]\<close> is the
  first row, or \<open>undefined\<close> when there is none.
\<close>

type_synonym query_result = "js_object list"

text \<open>\<open>(r as any[])[0]?.column\<close>\<close>

definition first_row_column :: "query_result \<Rightarrow> string \<Rightarrow> js_value" where
  "first_row_column r column =
     (case r of
        [] \<Rightarrow> JUndefined
      | row # _ \<Rightarrow> (case map_of row column of None \<Rightarrow> JUndefined | Some v \<Rightarrow> v))"

text \<open>
  The floating-point operations of the runtime. The monitor divides and multiplies
  doubles in three places; the embedding takes the two operations as parameters, so
  every theorem holds for the IEEE operations whatever they round to.
\<close>

record js_arith =
  fdiv :: "real \<Rightarrow> real \<Rightarrow> real"
  fmul :: "real \<Rightarrow> real \<Rightarrow> real"

text \<open>\<open>Number.prototype.toString\<close> on an integer, and \<open>String.prototype.includes\<close>.\<close>

fun digits :: "nat \<Rightarrow> string" where
  "digits n =
     (if n < 10 then [''0123456789'' ! n]
      else digits (n div 10) @ [''0123456789'' ! (n mod 10)])"

declare digits.simps [simp del]

definition toString :: "int \<Rightarrow> string" where
  "toString i = (if i < 0 then CHR ''-'' # digits (nat (- i)) else digits (nat i))"

fun includes_str :: "string \<Rightarrow> string \<Rightarrow> bool" where
  "includes_str [] p = (p = [])"
| "includes_str (c # cs) p = (take (length p) (c # cs) = p \<or> includes_str cs p)"

subsection \<open>Literals outside ASCII\<close>

text \<open>
  The Arabic names and the icons of the source are kept as the bytes of their UTF-8
  encoding.
\<close>

definition ar_Database_Connection :: string where
  "ar_Database_Connection =
     [CHR 0xD8, CHR 0xA7, CHR 0xD8, CHR 0xAA, CHR 0xD8, CHR 0xB5, CHR 0xD8, CHR 0xA7,
      CHR 0xD9, CHR 0x84, CHR 0x20, CHR 0xD9, CHR 0x82, CHR 0xD8, CHR 0xA7, CHR 0xD8,
      CHR 0xB9, CHR 0xD8, CHR 0xAF, CHR 0xD8, CHR 0xA9, CHR 0x20, CHR 0xD8, CHR 0xA7,
      CHR 0xD9, CHR 0x84, CHR 0xD8, CHR 0xA8, CHR 0xD9, CHR 0x8A, CHR 0xD8, CHR 0xA7,
      CHR 0xD9, CHR 0x86, CHR 0xD8, CHR 0xA7, CHR 0xD8, CHR 0xAA]"

definition ar_Database_Performance :: string where
  "ar_Database_Performance =
     [CHR 0xD8, CHR 0xA3, CHR 0xD8, CHR 0xAF, CHR 0xD8, CHR 0xA7, CHR 0xD8, CHR 0xA1,
      CHR 0x20, CHR 0xD9, CHR 0x82, CHR 0xD8, CHR 0xA7, CHR 0xD8, CHR 0xB9, CHR 0xD8,
      CHR 0xAF, CHR 0xD8, CHR 0xA9, CHR 0x20, CHR 0xD8, CHR 0xA7, CHR 0xD9, CHR 0x84,
      CHR 0xD8, CHR 0xA8, CHR 0xD9, CHR 0x8A, CHR 0xD8, CHR 0xA7, CHR 0xD9, CHR 0x86,
      CHR 0xD8, CHR 0xA7, CHR 0xD8, CHR 0xAA]"

definition ar_Memory_Usage :: string where
  "ar_Memory_Usage =
     [CHR 0xD8, CHR 0xA7, CHR 0xD8, CHR 0xB3, CHR 0xD8, CHR 0xAA, CHR 0xD8, CHR 0xAE,
      CHR 0xD8, CHR 0xAF, CHR 0xD8, CHR 0xA7, CHR 0xD9, CHR 0x85, CHR 0x20, CHR 0xD8,
      CHR 0xA7, CHR 0xD9, CHR 0x84, CHR 0xD8, CHR 0xB0, CHR 0xD8, CHR 0xA7, CHR 0xD9,
      CHR 0x83, CHR 0xD8, CHR 0xB1, CHR 0xD8, CHR 0xA9]"

definition ar_System_Health_API :: string where
  "ar_System_Health_API =
     [CHR 0x41, CHR 0x50, CHR 0x49, CHR 0x20, CHR 0xD8, CHR 0xB3, CHR 0xD9, CHR 0x84,
      CHR 0xD8, CHR 0xA7, CHR 0xD9, CHR 0x85, CHR 0xD8, CHR 0xA9, CHR 0x20, CHR 0xD8,
      CHR 0xA7, CHR 0xD9, CHR 0x84, CHR 0xD9, CHR 0x86, CHR 0xD8, CHR 0xB8, CHR 0xD8,
      CHR 0xA7, CHR 0xD9, CHR 0x85]"

definition ar_hours :: string where
  "ar_hours =
     [CHR 0x20, CHR 0xD8, CHR 0xB3, CHR 0xD8, CHR 0xA7, CHR 0xD8, CHR 0xB9, CHR 0xD8,
      CHR 0xA9]"

definition ar_title_prefix :: string where
  "ar_title_prefix =
     [CHR 0xD9, CHR 0x85, CHR 0xD8, CHR 0xB4, CHR 0xD9, CHR 0x83, CHR 0xD9, CHR 0x84,
      CHR 0xD8, CHR 0xA9, CHR 0x20, CHR 0xD9, CHR 0x81, CHR 0xD9, CHR 0x8A, CHR 0x20,
      CHR 0xD8, CHR 0xB3, CHR 0xD9, CHR 0x84, CHR 0xD8, CHR 0xA7, CHR 0xD9, CHR 0x85,
      CHR 0xD8, CHR 0xA9, CHR 0x20, CHR 0xD8, CHR 0xA7, CHR 0xD9, CHR 0x84, CHR 0xD9,
      CHR 0x86, CHR 0xD8, CHR 0xB8, CHR 0xD8, CHR 0xA7, CHR 0xD9, CHR 0x85, CHR 0x3A,
      CHR 0x20]"

definition ar_in_state :: string where
  "ar_in_state =
     [CHR 0x20, CHR 0xD9, CHR 0x81, CHR 0xD9, CHR 0x8A, CHR 0x20, CHR 0xD8, CHR 0xAD,
      CHR 0xD8, CHR 0xA7, CHR 0xD9, CHR 0x84, CHR 0xD8, CHR 0xA9, CHR 0x20]"

definition ar_check_database_connections :: string where
  "ar_check_database_connections =
     [CHR 0xD9, CHR 0x81, CHR 0xD8, CHR 0xAD, CHR 0xD8, CHR 0xB5, CHR 0x20, CHR 0xD8,
      CHR 0xA7, CHR 0xD8, CHR 0xAA, CHR 0xD8, CHR 0xB5, CHR 0xD8, CHR 0xA7, CHR 0xD9,
      CHR 0x84, CHR 0xD8, CHR 0xA7, CHR 0xD8, CHR 0xAA, CHR 0x20, CHR 0xD9, CHR 0x82,
      CHR 0xD8, CHR 0xA7, CHR 0xD8, CHR 0xB9, CHR 0xD8, CHR 0xAF, CHR 0xD8, CHR 0xA9,
      CHR 0x20, CHR 0xD8, CHR 0xA7, CHR 0xD9, CHR 0x84, CHR 0xD8, CHR 0xA8, CHR 0xD9,
      CHR 0x8A, CHR 0xD8, CHR 0xA7, CHR 0xD9, CHR 0x86, CHR 0xD8, CHR 0xA7, CHR 0xD8,
      CHR 0xAA]"

definition ar_restart_database_service :: string where
  "ar_restart_database_service =
     [CHR 0xD8, CHR 0xA5, CHR 0xD8, CHR 0xB9, CHR 0xD8, CHR 0xA7, CHR 0xD8, CHR 0xAF,
      CHR 0xD8, CHR 0xA9, CHR 0x20, CHR 0xD8, CHR 0xAA, CHR 0xD8, CHR 0xB4, CHR 0xD8,
      CHR 0xBA, CHR 0xD9, CHR 0x8A, CHR 0xD9, CHR 0x84, CHR 0x20, CHR 0xD8, CHR 0xAE,
      CHR 0xD8, CHR 0xAF, CHR 0xD9, CHR 0x85, CHR 0xD8, CHR 0xA9, CHR 0x20, CHR 0xD9,
      CHR 0x82, CHR 0xD8, CHR 0xA7, CHR 0xD8, CHR 0xB9, CHR 0xD8, CHR 0xAF, CHR 0xD8,
      CHR 0xA9, CHR 0x20, CHR 0xD8, CHR 0xA7, CHR 0xD9, CHR 0x84, CHR 0xD8, CHR 0xA8,
      CHR 0xD9, CHR 0x8A, CHR 0xD8, CHR 0xA7, CHR 0xD9, CHR 0x86, CHR 0xD8, CHR 0xA7,
      CHR 0xD8, CHR 0xAA]"

definition ar_check_memory_usage :: string where
  "ar_check_memory_usage =
     [CHR 0xD9, CHR 0x85, CHR 0xD8, CHR 0xB1, CHR 0xD8, CHR 0xA7, CHR 0xD8, CHR 0xAC,
      CHR 0xD8, CHR 0xB9, CHR 0xD8, CHR 0xA9, CHR 0x20, CHR 0xD8, CHR 0xA7, CHR 0xD8,
      CHR 0xB3, CHR 0xD8, CHR 0xAA, CHR 0xD8, CHR 0xAE, CHR 0xD8, CHR 0xAF, CHR 0xD8,
      CHR 0xA7, CHR 0xD9, CHR 0x85, CHR 0x20, CHR 0xD8, CHR 0xA7, CHR 0xD9, CHR 0x84,
      CHR 0xD8, CHR 0xB0, CHR 0xD8, CHR 0xA7, CHR 0xD9, CHR 0x83, CHR 0xD8, CHR 0xB1,
      CHR 0xD8, CHR 0xA9]"

definition ar_restart_application :: string where
  "ar_restart_application =
     [CHR 0xD8, CHR 0xA5, CHR 0xD8, CHR 0xB9, CHR 0xD8, CHR 0xA7, CHR 0xD8, CHR 0xAF,
      CHR 0xD8, CHR 0xA9, CHR 0x20, CHR 0xD8, CHR 0xAA, CHR 0xD8, CHR 0xB4, CHR 0xD8,
      CHR 0xBA, CHR 0xD9, CHR 0x8A, CHR 0xD9, CHR 0x84, CHR 0x20, CHR 0xD8, CHR 0xA7,
      CHR 0xD9, CHR 0x84, CHR 0xD8, CHR 0xAA, CHR 0xD8, CHR 0xB7, CHR 0xD8, CHR 0xA8,
      CHR 0xD9, CHR 0x8A, CHR 0xD9, CHR 0x82]"

definition glyph_system :: string where
  "glyph_system =
     [CHR 0xE2, CHR 0x9A, CHR 0x99, CHR 0xEF, CHR 0xB8, CHR 0x8F]"

definition glyph_production :: string where
  "glyph_production =
     [CHR 0xF0, CHR 0x9F, CHR 0x8F, CHR 0xAD]"

definition glyph_quality :: string where
  "glyph_quality =
     [CHR 0xE2, CHR 0x9C, CHR 0x85]"

definition glyph_inventory :: string where
  "glyph_inventory =
     [CHR 0xF0, CHR 0x9F, CHR 0x93, CHR 0xA6]"

definition glyph_maintenance :: string where
  "glyph_maintenance =
     [CHR 0xF0, CHR 0x9F, CHR 0x94, CHR 0xA7]"

definition glyph_security :: string where
  "glyph_security =
     [CHR 0xF0, CHR 0x9F, CHR 0x94, CHR 0x92]"

definition glyph_default :: string where
  "glyph_default =
     [CHR 0xF0, CHR 0x9F, CHR 0x9A, CHR 0xA8]"

subsection \<open>Health-check results\<close>

datatype health_status = Healthy | Warning | Critical | Unknown

text \<open>The string a status is at run time, as a template literal prints it.\<close>

fun status_string :: "health_status \<Rightarrow> string" where
  "status_string Healthy = ''healthy''"
| "status_string Warning = ''warning''"
| "status_string Critical = ''critical''"
| "status_string Unknown = ''unknown''"

record HealthCheckResult =
  checkName :: string
  checkName_ar :: string
  status :: health_status
  duration :: int
  details :: js_object
  error :: "string option"

section \<open>The four probes\<close>

text \<open>
  A probe reads the clock (\<open>Date.now()\<close>) on entry and once more when it builds its
  result; the two readings and the outcome of the calls it awaits are its inputs. Each
  probe catches what its body throws and resolves to a result.
\<close>

definition checkDatabaseConnection ::
    "int \<Rightarrow> query_result attempt \<Rightarrow> int \<Rightarrow> HealthCheckResult" where
  "checkDatabaseConnection startTime select1 now =
     (case select1 of
        Inr _ \<Rightarrow>
          (let duration = now - startTime in
           \<lparr>checkName = ''Database Connection'',
            checkName_ar = ar_Database_Connection,
            status = (if duration > 5000 then Critical
                      else if duration > 1000 then Warning else Healthy),
            duration = duration,
            details = [(''responseTime'', JNum duration), (''connected'', JBool True)],
            error = None\<rparr>)
      | Inl e \<Rightarrow>
          \<lparr>checkName = ''Database Connection'',
           checkName_ar = ar_Database_Connection,
           status = Critical,
           duration = now - startTime,
           details = [(''connected'', JBool False)],
           error = Some (error_message e)\<rparr>)"

text \<open>
  The performance probe awaits two queries in sequence; the second is issued only when
  the first has returned, and a throw of either reaches the same handler.
\<close>

definition checkDatabasePerformance ::
    "int \<Rightarrow> query_result attempt \<Rightarrow> query_result attempt \<Rightarrow> int \<Rightarrow> HealthCheckResult" where
  "checkDatabasePerformance startTime activeConnections dbSize now =
     (case (case activeConnections of
              Inl e \<Rightarrow> Inl e
            | Inr ac \<Rightarrow> (case dbSize of Inl e \<Rightarrow> Inl e | Inr ds \<Rightarrow> Inr (ac, ds))) of
        Inr (ac, ds) \<Rightarrow>
          (let duration = now - startTime;
               c = first_row_column ac ''active_connections'';
               connectionCount = (if truthy c then c else JNum 0) in
           \<lparr>checkName = ''Database Performance'',
            checkName_ar = ar_Database_Performance,
            status = (if duration > 2000 then Critical
                      else if duration > 500 then Warning else Healthy),
            duration = duration,
            details = [(''activeConnections'', connectionCount),
                       (''databaseSize'', first_row_column ds ''db_size''),
                       (''queryTime'', JNum duration)],
            error = None\<rparr>)
      | Inl e \<Rightarrow>
          \<lparr>checkName = ''Database Performance'',
           checkName_ar = ar_Database_Performance,
           status = Critical,
           duration = now - startTime,
           details = [],
           error = Some (error_message e)\<rparr>)"

text \<open>What \<open>process.memoryUsage()\<close> returns: byte counts.\<close>

record memoryUsage =
  heapTotal :: nat
  heapUsed :: nat
  external :: nat

text \<open>\<open>Math.round(x / 1024 / 1024)\<close>\<close>

definition megabytes :: "js_arith \<Rightarrow> nat \<Rightarrow> int" where
  "megabytes ar bytes = round (fdiv ar (fdiv ar (real bytes) 1024) 1024)"

text \<open>\<open>(usedMemory / totalMemory) * 100\<close>\<close>

definition usagePercent :: "js_arith \<Rightarrow> memoryUsage \<Rightarrow> real" where
  "usagePercent ar m = fmul ar (fdiv ar (real (heapUsed m)) (real (heapTotal m))) 100"

text \<open>The classification of the memory probe, on the percentage it has computed.\<close>

definition memoryStatus :: "real \<Rightarrow> health_status" where
  "memoryStatus p = (if p > 95 then Critical else if p > 80 then Warning else Healthy)"

definition checkSystemMemory ::
    "js_arith \<Rightarrow> int \<Rightarrow> memoryUsage attempt \<Rightarrow> int \<Rightarrow> HealthCheckResult" where
  "checkSystemMemory ar startTime sample now =
     (case sample of
        Inr m \<Rightarrow>
          \<lparr>checkName = ''Memory Usage'',
           checkName_ar = ar_Memory_Usage,
           status = memoryStatus (usagePercent ar m),
           duration = now - startTime,
           details = [(''usagePercent'', JNum (round (usagePercent ar m))),
                      (''usedMemory'', JNum (megabytes ar (heapUsed m))),
                      (''totalMemory'', JNum (megabytes ar (heapTotal m))),
                      (''external'', JNum (megabytes ar (external m)))],
           error = None\<rparr>
      | Inl e \<Rightarrow>
          \<lparr>checkName = ''Memory Usage'',
           checkName_ar = ar_Memory_Usage,
           status = Unknown,
           duration = now - startTime,
           details = [],
           error = Some (error_message e)\<rparr>)"

text \<open>What the liveness probe reads from the process object.\<close>

record process_info =
  uptime :: real
  version :: string
  platform :: string
  pid :: int

definition checkSystemHealth ::
    "js_arith \<Rightarrow> int \<Rightarrow> process_info attempt \<Rightarrow> int \<Rightarrow> HealthCheckResult" where
  "checkSystemHealth ar startTime info now =
     (case info of
        Inr p \<Rightarrow>
          (let uptimeHours = fdiv ar (uptime p) 3600 in
           \<lparr>checkName = ''System Health API'',
            checkName_ar = ar_System_Health_API,
            status = Healthy,
            duration = now - startTime,
            details = [(''uptime'', JStr (toString \<lfloor>uptimeHours\<rfloor> @ ar_hours)),
                       (''nodeVersion'', JStr (version p)),
                       (''platform'', JStr (platform p)),
                       (''processId'', JNum (pid p))],
            error = None\<rparr>)
      | Inl e \<Rightarrow>
          \<lparr>checkName = ''System Health API'',
           checkName_ar = ar_System_Health_API,
           status = Critical,
           duration = now - startTime,
           details = [],
           error = Some (error_message e)\<rparr>)"

section \<open>Alerts and notifications\<close>

datatype alert_type = System | Production | Quality | Inventory | Maintenance | Security

datatype alert_category = Cat_warning | Cat_error | Cat_critical | Cat_info | Cat_success

datatype alert_severity = Sev_low | Sev_medium | Sev_high | Sev_critical

text \<open>The string an alert type is at run time.\<close>

fun type_string :: "alert_type \<Rightarrow> string" where
  "type_string System = ''system''"
| "type_string Production = ''production''"
| "type_string Quality = ''quality''"
| "type_string Inventory = ''inventory''"
| "type_string Maintenance = ''maintenance''"
| "type_string Security = ''security''"

record suggested_action =
  action :: string
  action_priority :: int
  description :: "string option"

text \<open>
  The interface \<open>SmartAlert\<close>. Its optional fields are options; \<open>alert_id\<close> is the
  field \<open>id\<close>, which the monitor never sets.
\<close>

record SmartAlert =
  alert_id :: "int option"
  title :: string
  title_ar :: string
  message :: string
  message_ar :: string
  type :: alert_type
  category :: alert_category
  severity :: alert_severity
  source :: string
  source_id :: "string option"
  context_data :: "js_object option"
  suggested_actions :: "suggested_action list option"
  target_users :: "int list option"
  target_roles :: "int list option"
  requires_action :: bool

text \<open>
  The row \<open>createSystemAlert\<close> assembles for the alert table: the fields of the alert
  and \<open>notification_sent\<close>.
\<close>

record InsertSystemAlert = SmartAlert +
  notification_sent :: bool

text \<open>The row \<open>processHealthCheckResult\<close> assembles for the health-check table.\<close>

record InsertSystemHealthCheck =
  check_name :: string
  check_name_ar :: string
  check_type :: string
  check_status :: health_status
  last_check_time :: int
  check_duration_ms :: int
  check_details :: js_object
  last_error :: "string option"

text \<open>The payload handed to the notification manager.\<close>

datatype notification_priority = Urgent | High | Normal

datatype recipient_kind = Role | User

text \<open>
  What a property read on the icon table gives: one of its glyphs, or, for a name that
  every object inherits from \<open>Object.prototype\<close>, the inherited member (a function or
  an object, never a glyph).
\<close>

datatype icon_value = Glyph string | Inherited_member string

record notification =
  n_title :: string
  n_message :: string
  n_type :: alert_type
  priority :: notification_priority
  recipient_type :: recipient_kind
  recipient_id :: string
  context_type :: alert_type
  context_id :: "string option"
  sound :: bool
  icon :: icon_value

text \<open>
  The notification manager is a collaborator outside the monitor. Its two methods are
  parameters of the model: for a recipient and a payload, the awaited call returns
  (\<open>None\<close>) or throws.
\<close>

record notification_manager =
  sendToRole :: "int \<Rightarrow> notification \<Rightarrow> js_error option"
  sendToUser :: "int \<Rightarrow> notification \<Rightarrow> js_error option"

text \<open>A call the monitor has made to the notification manager.\<close>

datatype dispatch = SendToRole int notification | SendToUser int notification

section \<open>The monitor and the world it acts on\<close>

typedecl AlertRule

type_synonym timer = nat

datatype timer_callback = PerformHealthChecks | PerformMonitoring

text \<open>The private fields of the class. A JavaScript \<open>Map\<close> keeps its keys in insertion
  order, so the cache of last results is an association list.\<close>

record monitor =
  monitoringInterval :: "timer option"
  healthCheckInterval :: "timer option"
  alertRules :: "AlertRule list"
  lastHealthStatus :: "(string \<times> HealthCheckResult) list"

text \<open>What one line written to the console reports, by the statement that writes it.\<close>

datatype console_line =
    Log_monitor_enabled
  | Log_alert_rules_loaded
  | Log_default_health_checks_created
  | Log_periodic_monitoring_started
  | Log_monitor_started
  | Log_monitoring_stopped
  | Log_system_alert_created string
  | Error_initialize js_error
  | Error_health_check_failed js_error
  | Error_performHealthChecks js_error
  | Error_processHealthCheckResult js_error
  | Error_createHealthAlert js_error
  | Error_createSystemAlert js_error
  | Error_sendAlertNotification js_error

text \<open>
  The world: the monitor, the intervals armed in the runtime (handle, callback, period
  in milliseconds) with the next fresh handle, the console, the calls received by the
  notification manager, the date \<open>new Date()\<close> reads, and the two tables behind the
  storage handle that the alert engine is meant to fill.
\<close>

record world =
  self :: monitor
  intervals :: "(timer \<times> timer_callback \<times> int) list"
  fresh_timer :: timer
  console :: "console_line list"
  dispatched :: "dispatch list"
  date :: int
  system_alerts :: "InsertSystemAlert list"
  system_health_checks :: "InsertSystemHealthCheck list"

text \<open>An invocation of a method returns, or throws, in the world it has reached.\<close>

datatype outcome = Returns world | Throws js_error world

definition and_then :: "outcome \<Rightarrow> (world \<Rightarrow> outcome) \<Rightarrow> outcome" where
  "and_then r f = (case r of Returns w \<Rightarrow> f w | Throws e w \<Rightarrow> Throws e w)"

definition try_catch :: "outcome \<Rightarrow> (js_error \<Rightarrow> world \<Rightarrow> outcome) \<Rightarrow> outcome" where
  "try_catch r handler = (case r of Returns w \<Rightarrow> Returns w | Throws e w \<Rightarrow> handler e w)"

definition console_write :: "console_line \<Rightarrow> world \<Rightarrow> world" where
  "console_write l w = w\<lparr>console := console w @ [l]\<rparr>"

section \<open>The alert engine\<close>

definition getCheckType :: "string \<Rightarrow> string" where
  "getCheckType name =
     (if includes_str name ''Database'' then ''database''
      else if includes_str name ''Memory'' then ''memory''
      else if includes_str name ''API'' then ''api''
      else ''system'')"

definition getSuggestedActions :: "HealthCheckResult \<Rightarrow> suggested_action list" where
  "getSuggestedActions result =
     (if includes_str (checkName result) ''Database''
      then [\<lparr>action = ''check_database_connections'', action_priority = 1,
             description = Some ar_check_database_connections\<rparr>,
            \<lparr>action = ''restart_database_service'', action_priority = 2,
             description = Some ar_restart_database_service\<rparr>]
      else [])
     @
     (if includes_str (checkName result) ''Memory''
      then [\<lparr>action = ''check_memory_usage'', action_priority = 1,
             description = Some ar_check_memory_usage\<rparr>,
            \<lparr>action = ''restart_application'', action_priority = 3,
             description = Some ar_restart_application\<rparr>]
      else [])"

text \<open>\<open>result.error || fallback\<close>: an absent or empty error gives the fallback.\<close>

definition error_or :: "string option \<Rightarrow> string \<Rightarrow> string" where
  "error_or err fallback =
     (case err of None \<Rightarrow> fallback | Some m \<Rightarrow> if m = [] then fallback else m)"

text \<open>The alert literal of \<open>createHealthAlert\<close>.\<close>

definition healthAlert :: "HealthCheckResult \<Rightarrow> SmartAlert" where
  "healthAlert result =
     \<lparr>alert_id = None,
      title = ''System Health Issue: '' @ checkName result,
      title_ar = ar_title_prefix @ checkName_ar result,
      message = error_or (error result)
                  (checkName result @ '' is in '' @ status_string (status result) @ '' state''),
      message_ar = error_or (error result)
                     (checkName_ar result @ ar_in_state @ status_string (status result)),
      type = System,
      category = (if status result = Critical then Cat_critical else Cat_warning),
      severity = (if status result = Critical then Sev_critical else Sev_medium),
      source = ''system_health_monitor'',
      source_id = Some (checkName result),
      context_data = Some (details result),
      suggested_actions = Some (getSuggestedActions result),
      target_users = None,
      target_roles = Some [1, 2],
      requires_action = (status result = Critical)\<rparr>"

text \<open>
  The icon table is an object literal, so a read under one of the names inherited from
  \<open>Object.prototype\<close> finds the inherited member, which is truthy, and \<open>||\<close> keeps it.
\<close>

definition icons :: "(string \<times> string) list" where
  "icons =
     [(''system'', glyph_system), (''production'', glyph_production),
      (''quality'', glyph_quality), (''inventory'', glyph_inventory),
      (''maintenance'', glyph_maintenance), (''security'', glyph_security)]"

definition object_prototype_members :: "string list" where
  "object_prototype_members =
     [''constructor'', ''toString'', ''toLocaleString'', ''valueOf'', ''hasOwnProperty'',
      ''isPrototypeOf'', ''propertyIsEnumerable'', ''__proto__'', ''__defineGetter__'',
      ''__defineSetter__'', ''__lookupGetter__'', ''__lookupSetter__'']"

definition getAlertIcon :: "string \<Rightarrow> icon_value" where
  "getAlertIcon t =
     (case map_of icons t of
        Some g \<Rightarrow> if g = [] then Glyph glyph_default else Glyph g
      | None \<Rightarrow>
          if t \<in> set object_prototype_members then Inherited_member t
          else Glyph glyph_default)"

text \<open>The two payload literals of \<open>sendAlertNotification\<close>.\<close>

definition rolePayload :: "SmartAlert \<Rightarrow> int \<Rightarrow> notification" where
  "rolePayload alert roleId =
     \<lparr>n_title = title_ar alert,
      n_message = message_ar alert,
      n_type = type alert,
      priority = (if severity alert = Sev_critical then Urgent
                  else if severity alert = Sev_high then High else Normal),
      recipient_type = Role,
      recipient_id = toString roleId,
      context_type = type alert,
      context_id = source_id alert,
      sound = (severity alert = Sev_critical),
      icon = getAlertIcon (type_string (type alert))\<rparr>"

definition userPayload :: "SmartAlert \<Rightarrow> int \<Rightarrow> notification" where
  "userPayload alert userId =
     \<lparr>n_title = title_ar alert,
      n_message = message_ar alert,
      n_type = type alert,
      priority = (if severity alert = Sev_critical then Urgent
                  else if severity alert = Sev_high then High else Normal),
      recipient_type = User,
      recipient_id = toString userId,
      context_type = type alert,
      context_id = source_id alert,
      sound = (severity alert = Sev_critical),
      icon = getAlertIcon (type_string (type alert))\<rparr>"

text \<open>
  The two loops of \<open>sendAlertNotification\<close>. Each iteration awaits one call of the
  manager; the call is recorded, and when it throws, the loop is left with the exception.
\<close>

fun sendToRoles :: "notification_manager \<Rightarrow> SmartAlert \<Rightarrow> int list \<Rightarrow> world \<Rightarrow> outcome" where
  "sendToRoles nm alert [] w = Returns w"
| "sendToRoles nm alert (roleId # rest) w =
     (let payload = rolePayload alert roleId;
          w' = w\<lparr>dispatched := dispatched w @ [SendToRole roleId payload]\<rparr>
      in case sendToRole nm roleId payload of
           Some e \<Rightarrow> Throws e w'
         | None \<Rightarrow> sendToRoles nm alert rest w')"

fun sendToUsers :: "notification_manager \<Rightarrow> SmartAlert \<Rightarrow> int list \<Rightarrow> world \<Rightarrow> outcome" where
  "sendToUsers nm alert [] w = Returns w"
| "sendToUsers nm alert (userId # rest) w =
     (let payload = userPayload alert userId;
          w' = w\<lparr>dispatched := dispatched w @ [SendToUser userId payload]\<rparr>
      in case sendToUser nm userId payload of
           Some e \<Rightarrow> Throws e w'
         | None \<Rightarrow> sendToUsers nm alert rest w')"

text \<open>
  \<open>sendAlertNotification\<close>: one \<open>try\<close> block holds the lookup of the manager and both
  loops; its handler writes one line to the console. The first argument is what
  \<open>getNotificationManager(this.storage)\<close> does.
\<close>

definition sendAlertNotification ::
    "notification_manager attempt \<Rightarrow> SmartAlert \<Rightarrow> world \<Rightarrow> outcome" where
  "sendAlertNotification getNotificationManager alert w =
     try_catch
       (case getNotificationManager of
          Inl e \<Rightarrow> Throws e w
        | Inr notificationManager \<Rightarrow>
            and_then
              (case target_roles alert of
                 Some (r # rs) \<Rightarrow> sendToRoles notificationManager alert (r # rs) w
               | _ \<Rightarrow> Returns w)
              (\<lambda>w. case target_users alert of
                      Some (u # us) \<Rightarrow> sendToUsers notificationManager alert (u # us) w
                    | _ \<Rightarrow> Returns w))
       (\<lambda>e w. Returns (console_write (Error_sendAlertNotification e) w))"

text \<open>
  \<open>createSystemAlert\<close> assembles the row, writes a line to the console and sends the
  notifications. The statement that would insert the row is a placeholder comment in the
  source, so the row is dropped.
\<close>

definition createSystemAlert ::
    "notification_manager attempt \<Rightarrow> SmartAlert \<Rightarrow> world \<Rightarrow> outcome" where
  "createSystemAlert getNotificationManager alert w =
     try_catch
       (let alertData = SmartAlert.extend alert \<lparr>notification_sent = False\<rparr> in
        sendAlertNotification getNotificationManager alert
          (console_write (Log_system_alert_created (title_ar alert)) w))
       (\<lambda>e w. Returns (console_write (Error_createSystemAlert e) w))"

definition createHealthAlert ::
    "notification_manager attempt \<Rightarrow> HealthCheckResult \<Rightarrow> world \<Rightarrow> outcome" where
  "createHealthAlert getNotificationManager result w =
     try_catch
       (createSystemAlert getNotificationManager (healthAlert result) w)
       (\<lambda>e w. Returns (console_write (Error_createHealthAlert e) w))"

text \<open>
  \<open>processHealthCheckResult\<close> assembles the row for the health-check table (dropped
  like the alert row: the write is a placeholder comment), raises an alert for a
  critical or warning status, and stores the result in the cache.
\<close>

definition healthCheckData :: "int \<Rightarrow> HealthCheckResult \<Rightarrow> InsertSystemHealthCheck" where
  "healthCheckData now result =
     \<lparr>check_name = checkName result,
      check_name_ar = checkName_ar result,
      check_type = getCheckType (checkName result),
      check_status = status result,
      last_check_time = now,
      check_duration_ms = duration result,
      check_details = details result,
      last_error = error result\<rparr>"

definition cache_result :: "HealthCheckResult \<Rightarrow> world \<Rightarrow> world" where
  "cache_result result w =
     w\<lparr>self := (self w)\<lparr>lastHealthStatus :=
          AList.update (checkName result) result (lastHealthStatus (self w))\<rparr>\<rparr>"

definition processHealthCheckResult ::
    "notification_manager attempt \<Rightarrow> HealthCheckResult \<Rightarrow> world \<Rightarrow> outcome" where
  "processHealthCheckResult getNotificationManager result w =
     try_catch
       (let row = healthCheckData (date w) result in
        and_then
          (if status result = Critical \<or> status result = Warning
           then createHealthAlert getNotificationManager result w
           else Returns w)
          (\<lambda>w. Returns (cache_result result w)))
       (\<lambda>e w. Returns (console_write (Error_processHealthCheckResult e) w))"

section \<open>The health-check cycle\<close>

text \<open>What \<open>Promise.allSettled\<close> reports for one promise.\<close>

datatype 'a settled = Fulfilled 'a | Rejected js_error

text \<open>The loop of \<open>performHealthChecks\<close> over the settled promises, in their order.\<close>

fun processResults ::
    "notification_manager attempt \<Rightarrow> HealthCheckResult settled list \<Rightarrow> world \<Rightarrow> outcome" where
  "processResults getNotificationManager [] w = Returns w"
| "processResults getNotificationManager (r # rest) w =
     (case r of
        Fulfilled v \<Rightarrow>
          and_then (processHealthCheckResult getNotificationManager v w)
            (processResults getNotificationManager rest)
      | Rejected reason \<Rightarrow>
          processResults getNotificationManager rest
            (console_write (Error_health_check_failed reason) w))"

text \<open>
  \<open>performHealthChecks\<close>, from the point where the four promises have settled:
  \<open>checks\<close> is the array \<open>Promise.allSettled\<close> resolves to.
\<close>

definition performHealthChecks ::
    "notification_manager attempt \<Rightarrow> HealthCheckResult settled list \<Rightarrow> world \<Rightarrow> outcome" where
  "performHealthChecks getNotificationManager checks w =
     try_catch
       (processResults getNotificationManager checks w)
       (\<lambda>e w. Returns (console_write (Error_performHealthChecks e) w))"

text \<open>
  The start of \<open>performHealthChecks\<close>. An async method runs synchronously up to its
  first \<open>await\<close>, so the array literal calls the four probes one after the other, each
  up to that point: the two database probes have read the clock and issued their first
  query, and wait for it; the memory and liveness probes, which await nothing, have built
  their result. Then \<open>Promise.allSettled\<close> waits; the runtime reports the completion of
  the queries in the order they complete, and each completion resumes the probe that
  awaits it.
\<close>

datatype query = Select1 | ActiveConnections | DatabaseSize

text \<open>
  The completion of a query: what the awaited call gives, and what the clock reads when
  the probe is resumed.
\<close>

datatype completion = Completion query "query_result attempt" int

fun query_of :: "completion \<Rightarrow> query" where
  "query_of (Completion q outcome now) = q"

text \<open>Where each database probe stands: at an \<open>await\<close>, with its locals, or settled.\<close>

datatype connection_probe =
    Awaiting_select1 int
  | Connection_settled HealthCheckResult

datatype performance_probe =
    Awaiting_connections int
  | Awaiting_size int query_result
  | Performance_settled HealthCheckResult

text \<open>What the four calls read before the first completion.\<close>

record cycle_start =
  connection_started :: int
  performance_started :: int
  memory_started :: int
  memory_sampled :: "memoryUsage attempt"
  memory_finished :: int
  health_started :: int
  health_read :: "process_info attempt"
  health_finished :: int

text \<open>The four promises of a cycle, and the queries issued so far, in order.\<close>

record cycle =
  connection :: connection_probe
  performance :: performance_probe
  memory :: HealthCheckResult
  health :: HealthCheckResult
  issued :: "query list"

definition start_checks :: "js_arith \<Rightarrow> cycle_start \<Rightarrow> cycle" where
  "start_checks ar i =
     \<lparr>connection = Awaiting_select1 (connection_started i),
      performance = Awaiting_connections (performance_started i),
      memory = checkSystemMemory ar (memory_started i) (memory_sampled i) (memory_finished i),
      health = checkSystemHealth ar (health_started i) (health_read i) (health_finished i),
      issued = [Select1, ActiveConnections]\<rparr>"

text \<open>
  A completion resumes the probe that awaits the query; a probe that does not await it is
  left where it is. The connection probe builds its result. The performance probe, after
  its first query, issues the second one, or, when the first has thrown, builds its
  result in the handler; after the second it builds its result.
\<close>

fun resume_connection :: "completion \<Rightarrow> connection_probe \<Rightarrow> connection_probe" where
  "resume_connection (Completion Select1 outcome now) (Awaiting_select1 startTime) =
     Connection_settled (checkDatabaseConnection startTime outcome now)"
| "resume_connection e p = p"

fun resume_performance :: "completion \<Rightarrow> performance_probe \<Rightarrow> performance_probe" where
  "resume_performance (Completion ActiveConnections (Inl e) now) (Awaiting_connections startTime) =
     Performance_settled (checkDatabasePerformance startTime (Inl e) (Inl e) now)"
| "resume_performance (Completion ActiveConnections (Inr ac) now) (Awaiting_connections startTime) =
     Awaiting_size startTime ac"
| "resume_performance (Completion DatabaseSize outcome now) (Awaiting_size startTime ac) =
     Performance_settled (checkDatabasePerformance startTime (Inr ac) outcome now)"
| "resume_performance e p = p"

fun issued_on :: "completion \<Rightarrow> performance_probe \<Rightarrow> query list" where
  "issued_on (Completion ActiveConnections (Inr ac) now) (Awaiting_connections startTime) =
     [DatabaseSize]"
| "issued_on e p = []"

definition deliver :: "completion \<Rightarrow> cycle \<Rightarrow> cycle" where
  "deliver e c =
     c\<lparr>connection := resume_connection e (connection c),
       performance := resume_performance e (performance c),
       issued := issued c @ issued_on e (performance c)\<rparr>"

fun deliver_all :: "completion list \<Rightarrow> cycle \<Rightarrow> cycle" where
  "deliver_all [] c = c"
| "deliver_all (e # es) c = deliver_all es (deliver e c)"

text \<open>
  \<open>Promise.allSettled\<close> resolves once the four promises have settled, to their outcomes
  in the order of the array; until then \<open>performHealthChecks\<close> waits (\<open>None\<close>).
\<close>

definition allSettled :: "cycle \<Rightarrow> HealthCheckResult settled list option" where
  "allSettled c =
     (case connection c of
        Connection_settled r1 \<Rightarrow>
          (case performance c of
             Performance_settled r2 \<Rightarrow>
               Some [Fulfilled r1, Fulfilled r2, Fulfilled (memory c), Fulfilled (health c)]
           | _ \<Rightarrow> None)
      | _ \<Rightarrow> None)"

text \<open>
  One run of \<open>performHealthChecks\<close> from its call, for the completions the runtime
  reports: \<open>None\<close> when a query never completes, so that the method is still waiting.
\<close>

definition healthCheckTick ::
    "notification_manager attempt \<Rightarrow> js_arith \<Rightarrow> cycle_start \<Rightarrow> completion list \<Rightarrow> world
      \<Rightarrow> outcome option" where
  "healthCheckTick getNotificationManager ar i completions w =
     (case allSettled (deliver_all completions (start_checks ar i)) of
        None \<Rightarrow> None
      | Some checks \<Rightarrow> Some (performHealthChecks getNotificationManager checks w))"

section \<open>The scheduler and the status report\<close>


definition clearInterval :: "timer \<Rightarrow> world \<Rightarrow> world" where
  "clearInterval h w = w\<lparr>intervals := filter (\<lambda>t. fst t \<noteq> h) (intervals w)\<rparr>"




definition stopMonitoring :: "world \<Rightarrow> outcome" where
  "stopMonitoring w =
     (let w1 = (case healthCheckInterval (self w) of
                  Some h \<Rightarrow> (clearInterval h w)\<lparr>self := (self w)\<lparr>healthCheckInterval := None\<rparr>\<rparr>
                | None \<Rightarrow> w);
          w2 = (case monitoringInterval (self w1) of
                  Some m \<Rightarrow> (clearInterval m w1)\<lparr>self := (self w1)\<lparr>monitoringInterval := None\<rparr>\<rparr>
                | None \<Rightarrow> w1)
      in Returns (console_write Log_monitoring_stopped w2))"

text \<open>
  The constructor and \<open>initialize\<close>: the fields take their initial values, the two
  placeholder loaders write their console lines, and the timers are armed. The
  constructor starts \<open>initialize\<close> without awaiting it; \<open>construct\<close> gives the world
  once \<open>initialize\<close> has finished.
\<close>

definition new_monitor :: monitor where
  "new_monitor =
     \<lparr>monitoringInterval = None, healthCheckInterval = None, alertRules = [],
      lastHealthStatus = []\<rparr>"



text \<open>The object \<open>getSystemStatus\<close> returns.\<close>

record system_status =
  monitoring :: bool
  healthChecks :: bool
  lastHealthChecks :: "HealthCheckResult list"
  totalAlertRules :: nat

definition getSystemStatus :: "world \<Rightarrow> system_status \<times> world" where
  "getSystemStatus w =
     (\<lparr>monitoring = (monitoringInterval (self w) \<noteq> None),
       healthChecks = (healthCheckInterval (self w) \<noteq> None),
       lastHealthChecks = map snd (lastHealthStatus (self w)),
       totalAlertRules = length (alertRules (self w))\<rparr>,
      w)"

section \<open>Notions used to state the properties\<close>

text \<open>The world an invocation ends in, and whether it ended by returning.\<close>

fun final :: "outcome \<Rightarrow> world" where
  "final (Returns w) = w"
| "final (Throws e w) = w"

fun returns :: "outcome \<Rightarrow> bool" where
  "returns (Returns w) = True"
| "returns (Throws e w) = False"

text \<open>
  The calls an alert asks for, in the order of the source: one per target role, then one
  per target user.
\<close>

definition planned :: "SmartAlert \<Rightarrow> dispatch list" where
  "planned alert =
     map (\<lambda>i. SendToRole i (rolePayload alert i))
       (case target_roles alert of None \<Rightarrow> [] | Some rs \<Rightarrow> rs)
     @ map (\<lambda>i. SendToUser i (userPayload alert i))
       (case target_users alert of None \<Rightarrow> [] | Some us \<Rightarrow> us)"

text \<open>How the manager answers a call, and whether the call goes through.\<close>

fun answer :: "notification_manager \<Rightarrow> dispatch \<Rightarrow> js_error option" where
  "answer nm (SendToRole i n) = sendToRole nm i n"
| "answer nm (SendToUser i n) = sendToUser nm i n"

definition delivered :: "notification_manager \<Rightarrow> dispatch \<Rightarrow> bool" where
  "delivered nm d = (answer nm d = None)"

text \<open>
  Of a list of calls made one after the other until one throws: the calls that are made
  (those before the first that throws, and that one), and what the first failing call
  throws.
\<close>

definition attempts :: "notification_manager \<Rightarrow> dispatch list \<Rightarrow> dispatch list" where
  "attempts nm ds = takeWhile (delivered nm) ds @ take 1 (dropWhile (delivered nm) ds)"

definition first_failure :: "notification_manager \<Rightarrow> dispatch list \<Rightarrow> js_error option" where
  "first_failure nm ds =
     (case dropWhile (delivered nm) ds of [] \<Rightarrow> None | d # _ \<Rightarrow> answer nm d)"

text \<open>
  The same for an alert, given what the lookup of the manager does: when the lookup
  throws, no call is made and the failure is the one of the lookup.
\<close>

definition dispatch_attempts :: "notification_manager attempt \<Rightarrow> SmartAlert \<Rightarrow> dispatch list" where
  "dispatch_attempts getNotificationManager alert =
     (case getNotificationManager of
        Inl e \<Rightarrow> []
      | Inr nm \<Rightarrow> attempts nm (planned alert))"

definition dispatch_failure :: "notification_manager attempt \<Rightarrow> SmartAlert \<Rightarrow> js_error option" where
  "dispatch_failure getNotificationManager alert =
     (case getNotificationManager of
        Inl e \<Rightarrow> Some e
      | Inr nm \<Rightarrow> first_failure nm (planned alert))"

definition failure_lines :: "js_error option \<Rightarrow> console_line list" where
  "failure_lines f = (case f of None \<Rightarrow> [] | Some e \<Rightarrow> [Error_sendAlertNotification e])"

text \<open>The recipient of a call.\<close>

fun recipient :: "dispatch \<Rightarrow> recipient_kind \<times> int" where
  "recipient (SendToRole i n) = (Role, i)"
| "recipient (SendToUser i n) = (User, i)"

text \<open>A result raises an alert when its status is critical or warning.\<close>

definition raises_alert :: "HealthCheckResult \<Rightarrow> bool" where
  "raises_alert r = (status r = Critical \<or> status r = Warning)"

text \<open>
  The alerts created so far, read off the console: \<open>createSystemAlert\<close> writes one
  line, with the Arabic title, for each alert it creates.
\<close>

fun created_alerts :: "console_line list \<Rightarrow> string list" where
  "created_alerts [] = []"
| "created_alerts (Log_system_alert_created t # ls) = t # created_alerts ls"
| "created_alerts (l # ls) = created_alerts ls"

text \<open>The probes reported as failed to complete, read off the console.\<close>

fun failed_checks :: "console_line list \<Rightarrow> js_error list" where
  "failed_checks [] = []"
| "failed_checks (Error_health_check_failed e # ls) = e # failed_checks ls"
| "failed_checks (l # ls) = failed_checks ls"

text \<open>The fulfilled and the rejected promises of a cycle, in their order.\<close>

fun fulfilled :: "'a settled list \<Rightarrow> 'a list" where
  "fulfilled [] = []"
| "fulfilled (Fulfilled v # cs) = v # fulfilled cs"
| "fulfilled (Rejected e # cs) = fulfilled cs"

fun rejected :: "'a settled list \<Rightarrow> js_error list" where
  "rejected [] = []"
| "rejected (Fulfilled v # cs) = rejected cs"
| "rejected (Rejected e # cs) = e # rejected cs"

text \<open>Storing a list of results in the cache, one after the other.\<close>

definition cache_all ::
    "HealthCheckResult list \<Rightarrow> (string \<times> HealthCheckResult) list
      \<Rightarrow> (string \<times> HealthCheckResult) list" where
  "cache_all rs c = foldl (\<lambda>c r. AList.update (checkName r) r c) c rs"

subsection \<open>Concrete inputs\<close>

text \<open>A world in which the monitor has just been built and nothing has happened.\<close>

definition fresh_world :: world where
  "fresh_world =
     \<lparr>self = new_monitor, intervals = [], fresh_timer = 0, console = [], dispatched = [],
      date = 0, system_alerts = [], system_health_checks = []\<rparr>"

text \<open>A manager that delivers everything, and one that cannot reach role 1.\<close>

definition working_manager :: notification_manager where
  "working_manager = \<lparr>sendToRole = (\<lambda>i n. None), sendToUser = (\<lambda>i n. None)\<rparr>"

definition failing_manager :: notification_manager where
  "failing_manager =
     \<lparr>sendToRole = (\<lambda>i n. if i = 1 then Some (Error ''role 1 unreachable'') else None),
      sendToUser = (\<lambda>i n. None)\<rparr>"

text \<open>Exact arithmetic, standing for the floating-point operations where they are exact.\<close>

definition exact_arith :: js_arith where
  "exact_arith = \<lparr>fdiv = (\<lambda>x y. x / y), fmul = (\<lambda>x y. x * y)\<rparr>"

text \<open>A database connection probe that took seven seconds.\<close>

definition slow_connection :: HealthCheckResult where
  "slow_connection = checkDatabaseConnection 0 (Inr []) 7000"

text \<open>A performance probe whose query threw an error that carries no message.\<close>

definition silent_failure :: HealthCheckResult where
  "silent_failure = checkDatabasePerformance 0 (Inl (Error [])) (Inr []) 3"

text \<open>A memory probe whose sampling threw.\<close>

definition failed_sampling :: HealthCheckResult where
  "failed_sampling = checkSystemMemory exact_arith 0 (Inl (Error ''sampling failed'')) 1"

text \<open>
  A cycle in which the database refuses the connection probe and the first query of the
  performance probe completes before that refusal is reported.
\<close>

definition sample_start :: cycle_start where
  "sample_start =
     \<lparr>connection_started = 0, performance_started = 1,
      memory_started = 1, memory_sampled = Inr \<lparr>heapTotal = 200, heapUsed = 100, external = 0\<rparr>,
      memory_finished = 1,
      health_started = 2,
      health_read = Inr \<lparr>uptime = 7200, version = ''v20'', platform = ''linux'', pid = 42\<rparr>,
      health_finished = 2\<rparr>"

definition sample_completions :: "completion list" where
  "sample_completions =
     [Completion ActiveConnections (Inr []) 5,
      Completion Select1 (Inl (Error ''connection refused'')) 7,
      Completion DatabaseSize (Inr []) 9]"

text \<open>The same cycle when the first query of the performance probe throws.\<close>

definition failing_completions :: "completion list" where
  "failing_completions =
     [Completion ActiveConnections (Inl (Error ''timeout'')) 5,
      Completion Select1 (Inr []) 7]"


text \<open>Running the same cycle \<open>n\<close> times in a row.\<close>

fun cycles ::
    "nat \<Rightarrow> notification_manager attempt \<Rightarrow> HealthCheckResult settled list \<Rightarrow> world \<Rightarrow> world" where
  "cycles 0 getNotificationManager checks w = w"
| "cycles (Suc n) getNotificationManager checks w =
     cycles n getNotificationManager checks
       (final (performHealthChecks getNotificationManager checks w))"

section \<open>Properties: exceptions and the dispatch loops\<close>

lemma try_catch_simps [simp]:
  "try_catch (Returns w) h = Returns w"
  "try_catch (Throws e w) h = h e w"
  by (simp_all add: try_catch_def)

lemma and_then_simps [simp]:
  "and_then (Returns w) f = f w"
  "and_then (Throws e w) f = Throws e w"
  by (simp_all add: and_then_def)

lemma attempts_Nil [simp]: "attempts nm [] = []"
  by (simp add: attempts_def)

lemma attempts_Cons [simp]:
  "attempts nm (d # ds) = d # (if delivered nm d then attempts nm ds else [])"
  by (simp add: attempts_def)

lemma first_failure_Nil [simp]: "first_failure nm [] = None"
  by (simp add: first_failure_def)

lemma first_failure_Cons [simp]:
  "first_failure nm (d # ds) = (if delivered nm d then first_failure nm ds else answer nm d)"
  by (simp add: first_failure_def)

lemma first_failure_None_iff:
  "first_failure nm ds = None \<longleftrightarrow> list_all (delivered nm) ds"
  by (induction ds) (auto simp: delivered_def)

lemma attempts_no_failure:
  "first_failure nm ds = None \<Longrightarrow> attempts nm ds = ds"
  by (induction ds) (auto simp: delivered_def split: if_splits)

lemma attempts_append:
  "attempts nm (xs @ ys) =
     (if first_failure nm xs = None then xs @ attempts nm ys else attempts nm xs)"
  by (induction xs) (auto simp: delivered_def)

lemma first_failure_append:
  "first_failure nm (xs @ ys) =
     (if first_failure nm xs = None then first_failure nm ys else first_failure nm xs)"
  by (induction xs) (auto simp: delivered_def)

lemma sendToRoles_outcome:
  "sendToRoles nm alert ids w =
     (case first_failure nm (map (\<lambda>i. SendToRole i (rolePayload alert i)) ids) of
        None \<Rightarrow> Returns (w\<lparr>dispatched := dispatched w @
                   attempts nm (map (\<lambda>i. SendToRole i (rolePayload alert i)) ids)\<rparr>)
      | Some e \<Rightarrow> Throws e (w\<lparr>dispatched := dispatched w @
                   attempts nm (map (\<lambda>i. SendToRole i (rolePayload alert i)) ids)\<rparr>))"
proof (induction ids arbitrary: w)
  case Nil
  show ?case by simp
next
  case (Cons i ids)
  show ?case
    by (cases "sendToRole nm i (rolePayload alert i)")
      (simp_all add: Let_def Cons.IH delivered_def split: option.splits)
qed

lemma sendToUsers_outcome:
  "sendToUsers nm alert ids w =
     (case first_failure nm (map (\<lambda>i. SendToUser i (userPayload alert i)) ids) of
        None \<Rightarrow> Returns (w\<lparr>dispatched := dispatched w @
                   attempts nm (map (\<lambda>i. SendToUser i (userPayload alert i)) ids)\<rparr>)
      | Some e \<Rightarrow> Throws e (w\<lparr>dispatched := dispatched w @
                   attempts nm (map (\<lambda>i. SendToUser i (userPayload alert i)) ids)\<rparr>))"
proof (induction ids arbitrary: w)
  case Nil
  show ?case by simp
next
  case (Cons i ids)
  show ?case
    by (cases "sendToUser nm i (userPayload alert i)")
      (simp_all add: Let_def Cons.IH delivered_def split: option.splits)
qed

lemma sendAlertNotification_manager:
  "sendAlertNotification (Inr nm) alert w =
     Returns (w\<lparr>dispatched := dispatched w @ attempts nm (planned alert),
               console := console w @ failure_lines (first_failure nm (planned alert))\<rparr>)"
proof -
  let ?rs = "case target_roles alert of None \<Rightarrow> [] | Some rs \<Rightarrow> rs"
  let ?us = "case target_users alert of None \<Rightarrow> [] | Some us \<Rightarrow> us"
  have roles: "(case target_roles alert of Some (r # rs) \<Rightarrow> sendToRoles nm alert (r # rs) w
                | _ \<Rightarrow> Returns w) = sendToRoles nm alert ?rs w"
    by (simp split: option.splits list.splits)
  have users: "\<And>v. (case target_users alert of Some (u # us) \<Rightarrow> sendToUsers nm alert (u # us) v
                | _ \<Rightarrow> Returns v) = sendToUsers nm alert ?us v"
    by (simp split: option.splits list.splits)
  show ?thesis
    unfolding sendAlertNotification_def sum.case roles users
    by (simp add: sendToRoles_outcome sendToUsers_outcome planned_def first_failure_append
        attempts_append attempts_no_failure failure_lines_def console_write_def
        split: option.splits)
qed

lemma sendAlertNotification_no_manager:
  "sendAlertNotification (Inl e) alert w =
     Returns (console_write (Error_sendAlertNotification e) w)"
  by (simp add: sendAlertNotification_def)

lemma sendAlertNotification_outcome:
  "sendAlertNotification gnm alert w =
     Returns (w\<lparr>dispatched := dispatched w @ dispatch_attempts gnm alert,
               console := console w @ failure_lines (dispatch_failure gnm alert)\<rparr>)"
  by (cases gnm)
    (simp_all add: sendAlertNotification_manager sendAlertNotification_no_manager
      dispatch_attempts_def dispatch_failure_def failure_lines_def console_write_def)

section \<open>Properties: what the alert engine does to the world\<close>

lemma createSystemAlert_outcome:
  "createSystemAlert gnm alert w =
     Returns (w\<lparr>dispatched := dispatched w @ dispatch_attempts gnm alert,
               console := console w @ Log_system_alert_created (title_ar alert)
                            # failure_lines (dispatch_failure gnm alert)\<rparr>)"
  by (simp add: createSystemAlert_def Let_def sendAlertNotification_outcome console_write_def)

lemma createHealthAlert_outcome:
  "createHealthAlert gnm r w =
     Returns (w\<lparr>dispatched := dispatched w @ dispatch_attempts gnm (healthAlert r),
               console := console w @ Log_system_alert_created (title_ar (healthAlert r))
                            # failure_lines (dispatch_failure gnm (healthAlert r))\<rparr>)"
  by (simp add: createHealthAlert_def createSystemAlert_outcome)

lemma processHealthCheckResult_outcome:
  "processHealthCheckResult gnm r w =
     Returns (cache_result r
       (if raises_alert r
        then w\<lparr>dispatched := dispatched w @ dispatch_attempts gnm (healthAlert r),
               console := console w @ Log_system_alert_created (title_ar (healthAlert r))
                            # failure_lines (dispatch_failure gnm (healthAlert r))\<rparr>
        else w))"
  by (simp add: processHealthCheckResult_def Let_def createHealthAlert_outcome raises_alert_def)

lemma created_alerts_append [simp]:
  "created_alerts (xs @ ys) = created_alerts xs @ created_alerts ys"
  by (induction xs rule: created_alerts.induct) simp_all

lemma created_alerts_failure_lines [simp]: "created_alerts (failure_lines f) = []"
  by (cases f) (simp_all add: failure_lines_def)

lemma failed_checks_append [simp]:
  "failed_checks (xs @ ys) = failed_checks xs @ failed_checks ys"
  by (induction xs rule: failed_checks.induct) simp_all

lemma failed_checks_failure_lines [simp]: "failed_checks (failure_lines f) = []"
  by (cases f) (simp_all add: failure_lines_def)

lemma processHealthCheckResult_fields:
  "returns (processHealthCheckResult gnm r w)"
  "lastHealthStatus (self (final (processHealthCheckResult gnm r w))) =
     AList.update (checkName r) r (lastHealthStatus (self w))"
  "monitoringInterval (self (final (processHealthCheckResult gnm r w))) =
     monitoringInterval (self w)"
  "healthCheckInterval (self (final (processHealthCheckResult gnm r w))) =
     healthCheckInterval (self w)"
  "alertRules (self (final (processHealthCheckResult gnm r w))) = alertRules (self w)"
  "intervals (final (processHealthCheckResult gnm r w)) = intervals w"
  "system_alerts (final (processHealthCheckResult gnm r w)) = system_alerts w"
  "system_health_checks (final (processHealthCheckResult gnm r w)) = system_health_checks w"
  "dispatched (final (processHealthCheckResult gnm r w)) =
     dispatched w @ (if raises_alert r then dispatch_attempts gnm (healthAlert r) else [])"
  "created_alerts (console (final (processHealthCheckResult gnm r w))) =
     created_alerts (console w) @ (if raises_alert r then [title_ar (healthAlert r)] else [])"
  "failed_checks (console (final (processHealthCheckResult gnm r w))) =
     failed_checks (console w)"
  by (simp_all add: processHealthCheckResult_outcome cache_result_def)

lemma processHealthCheckResult_Returns:
  "processHealthCheckResult gnm r w = Returns (final (processHealthCheckResult gnm r w))"
  by (simp add: processHealthCheckResult_outcome)

lemma processResults_Fulfilled:
  "processResults gnm (Fulfilled r # cs) w =
     processResults gnm cs (final (processHealthCheckResult gnm r w))"
proof -
  have "processResults gnm (Fulfilled r # cs) w =
          and_then (processHealthCheckResult gnm r w) (processResults gnm cs)"
    by simp
  also have "\<dots> = and_then (Returns (final (processHealthCheckResult gnm r w)))
                    (processResults gnm cs)"
    using processHealthCheckResult_Returns [of gnm r w] by simp
  finally show ?thesis by simp
qed

lemma processResults_Rejected:
  "processResults gnm (Rejected e # cs) w =
     processResults gnm cs (console_write (Error_health_check_failed e) w)"
  by simp

lemma cache_all_Cons:
  "cache_all (r # rs) c = cache_all rs (AList.update (checkName r) r c)"
  by (simp add: cache_all_def)

lemma processResults_fields:
  "returns (processResults gnm cs w) \<and>
   lastHealthStatus (self (final (processResults gnm cs w))) =
     cache_all (fulfilled cs) (lastHealthStatus (self w)) \<and>
   monitoringInterval (self (final (processResults gnm cs w))) = monitoringInterval (self w) \<and>
   healthCheckInterval (self (final (processResults gnm cs w))) = healthCheckInterval (self w) \<and>
   alertRules (self (final (processResults gnm cs w))) = alertRules (self w) \<and>
   intervals (final (processResults gnm cs w)) = intervals w \<and>
   system_alerts (final (processResults gnm cs w)) = system_alerts w \<and>
   system_health_checks (final (processResults gnm cs w)) = system_health_checks w \<and>
   dispatched (final (processResults gnm cs w)) =
     dispatched w @ concat (map (\<lambda>r. dispatch_attempts gnm (healthAlert r))
                              (filter raises_alert (fulfilled cs))) \<and>
   created_alerts (console (final (processResults gnm cs w))) =
     created_alerts (console w) @ map (\<lambda>r. title_ar (healthAlert r))
                                    (filter raises_alert (fulfilled cs)) \<and>
   failed_checks (console (final (processResults gnm cs w))) =
     failed_checks (console w) @ rejected cs"
proof (induction cs arbitrary: w)
  case Nil
  show ?case by (simp add: cache_all_def)
next
  case (Cons c cs)
  show ?case
  proof (cases c)
    case (Fulfilled r)
    show ?thesis
      unfolding Fulfilled processResults_Fulfilled
      using Cons.IH [of "final (processHealthCheckResult gnm r w)"]
      by (simp add: processHealthCheckResult_fields cache_all_Cons)
  next
    case (Rejected e)
    show ?thesis
      unfolding Rejected processResults_Rejected
      using Cons.IH [of "console_write (Error_health_check_failed e) w"]
      by (simp add: console_write_def)
  qed
qed

lemma performHealthChecks_processResults:
  "performHealthChecks gnm cs w = Returns (final (processResults gnm cs w))"
proof -
  have "returns (processResults gnm cs w)"
    using processResults_fields [of gnm cs w] by simp
  then show ?thesis
    by (cases "processResults gnm cs w") (simp_all add: performHealthChecks_def)
qed

lemma planned_healthAlert:
  "planned (healthAlert r) =
     [SendToRole 1 (rolePayload (healthAlert r) 1), SendToRole 2 (rolePayload (healthAlert r) 2)]"
  by (simp add: planned_def healthAlert_def)

lemma slow_connection_status: "status slow_connection = Critical"
  by (simp add: slow_connection_def checkDatabaseConnection_def)

lemma failing_manager_attempts:
  "dispatch_attempts (Inr failing_manager) (healthAlert r) =
     [SendToRole 1 (rolePayload (healthAlert r) 1)]"
  by (simp add: dispatch_attempts_def planned_healthAlert delivered_def failing_manager_def)

lemma working_manager_delivers: "delivered working_manager d"
  by (cases d) (simp_all add: delivered_def working_manager_def)

section \<open>Properties: notification fan-out\<close>

text \<open>
  C1, as stated, fails: \<open>sendAlertNotification\<close> has one handler around both loops, so
  the first dispatch that throws ends the iteration. With a manager that cannot reach
  role 1, an alert for roles 1 and 2 leads to a single call, the one for role 1, although
  the call for role 2 would have gone through.
\<close>

theorem sendAlertNotification_failure_ends_fan_out:
  "target_roles (healthAlert slow_connection) = Some [1, 2] \<and>
   answer failing_manager (SendToRole 2 (rolePayload (healthAlert slow_connection) 2)) = None \<and>
   map recipient
     (dispatched (final (sendAlertNotification (Inr failing_manager)
        (healthAlert slow_connection) fresh_world))) = [(Role, 1)]"
  by (simp add: sendAlertNotification_outcome failing_manager_attempts fresh_world_def)
    (simp add: healthAlert_def failing_manager_def)

text \<open>
  C1, amended: \<open>sendAlertNotification\<close> never throws. It makes the dispatch calls in
  order, one per id of \<open>target_roles\<close> and then one per id of \<open>target_users\<close>, up to
  and including the first call that throws; that failure is written to the console once
  and the recipients after it get no call. When the lookup of the manager throws, no
  call is made. When no call throws, every recipient gets exactly one call and nothing
  is written.
\<close>

theorem sendAlertNotification_dispatches_until_first_failure:
  "sendAlertNotification gnm alert w =
     Returns (w\<lparr>dispatched := dispatched w @ dispatch_attempts gnm alert,
               console := console w @ failure_lines (dispatch_failure gnm alert)\<rparr>) \<and>
   dispatch_attempts (Inl e) alert = [] \<and>
   dispatch_failure (Inl e) alert = Some e \<and>
   dispatch_attempts (Inr nm) alert =
     takeWhile (delivered nm) (planned alert) @ take 1 (dropWhile (delivered nm) (planned alert)) \<and>
   dispatch_failure (Inr nm) alert =
     (case dropWhile (delivered nm) (planned alert) of [] \<Rightarrow> None | d # _ \<Rightarrow> answer nm d) \<and>
   (list_all (delivered nm) (planned alert) \<longrightarrow>
      dispatch_attempts (Inr nm) alert = planned alert \<and>
      failure_lines (dispatch_failure (Inr nm) alert) = [])"
proof -
  have "dispatch_attempts (Inr nm) alert = planned alert \<and>
        failure_lines (dispatch_failure (Inr nm) alert) = []"
    if "list_all (delivered nm) (planned alert)"
  proof -
    from that have "first_failure nm (planned alert) = None"
      by (simp add: first_failure_None_iff)
    then show ?thesis
      by (simp add: dispatch_attempts_def dispatch_failure_def attempts_no_failure
          failure_lines_def)
  qed
  then show ?thesis
    by (simp add: sendAlertNotification_outcome dispatch_attempts_def dispatch_failure_def
        attempts_def first_failure_def)
qed

theorem sendAlertNotification_dispatches_all_witness:
  "list_all (delivered working_manager) (planned (healthAlert slow_connection)) \<and>
   map recipient
     (dispatched (final (sendAlertNotification (Inr working_manager)
        (healthAlert slow_connection) fresh_world))) = [(Role, 1), (Role, 2)] \<and>
   console (final (sendAlertNotification (Inr working_manager)
        (healthAlert slow_connection) fresh_world)) = []"
proof -
  have all: "list_all (delivered working_manager) (planned (healthAlert slow_connection))"
    by (simp add: planned_healthAlert working_manager_delivers)
  from sendAlertNotification_dispatches_until_first_failure
    [of "Inr working_manager" "healthAlert slow_connection" fresh_world _ working_manager]
  show ?thesis
    using all by (simp add: planned_healthAlert fresh_world_def failure_lines_def)
qed

section \<open>Properties: alerts raised by health-check results\<close>

lemma fulfilled_map_Fulfilled [simp]: "fulfilled (map Fulfilled rs) = rs"
  by (induction rs) simp_all

lemma cycles_fields:
  "created_alerts (console (cycles n gnm cs w)) =
     created_alerts (console w) @
       concat (replicate n (map (\<lambda>r. title_ar (healthAlert r))
                              (filter raises_alert (fulfilled cs)))) \<and>
   system_alerts (cycles n gnm cs w) = system_alerts w"
proof (induction n arbitrary: w)
  case 0
  show ?case by simp
next
  case (Suc n)
  show ?case
    using Suc.IH [of "final (performHealthChecks gnm cs w)"]
      processResults_fields [of gnm cs w]
    by (simp add: performHealthChecks_processResults)
qed

text \<open>
  C2, as stated, fails on both counts. The statement that would insert the alert row is a
  placeholder comment in \<open>createSystemAlert\<close>, so no alert is persisted; and the
  dispatch loop stops at the first call that throws. A critical result processed while
  the manager cannot reach role 1 leaves the alert table empty and makes one dispatch
  call, not one for each of the roles 1 and 2.
\<close>

theorem processHealthCheckResult_neither_persists_nor_reaches_all:
  "status slow_connection = Critical \<and>
   target_roles (healthAlert slow_connection) = Some [1, 2] \<and>
   system_alerts (final (processHealthCheckResult (Inr failing_manager)
     slow_connection fresh_world)) = [] \<and>
   map recipient (dispatched (final (processHealthCheckResult (Inr failing_manager)
     slow_connection fresh_world))) = [(Role, 1)]"
  by (simp add: processHealthCheckResult_fields raises_alert_def slow_connection_status
      failing_manager_attempts)
    (simp add: fresh_world_def healthAlert_def)

text \<open>
  C2, amended: for every health-check result, whatever the cache holds:
  if its status is critical or warning, \<open>processHealthCheckResult\<close> creates exactly one
  alert (\<open>createSystemAlert\<close> runs once and announces it on the console; nothing is
  written to the alert table) and makes the dispatch calls for the roles 1 and 2 in that
  order, up to and including the first call that throws, hence one call per role when no
  call throws; otherwise it creates no alert and makes no call. It never throws. Over any
  sequence of results the alerts add up, so a check that stays critical for \<open>n\<close> cycles
  produces \<open>n\<close> alerts, and a cycle of healthy results produces none.
\<close>

theorem processHealthCheckResult_one_alert_per_bad_result:
  "returns (processHealthCheckResult gnm r w) \<and>
   created_alerts (console (final (processHealthCheckResult gnm r w))) =
     created_alerts (console w) @ (if raises_alert r then [title_ar (healthAlert r)] else []) \<and>
   dispatched (final (processHealthCheckResult gnm r w)) =
     dispatched w @ (if raises_alert r then dispatch_attempts gnm (healthAlert r) else []) \<and>
   system_alerts (final (processHealthCheckResult gnm r w)) = system_alerts w \<and>
   raises_alert r = (status r = Critical \<or> status r = Warning) \<and>
   planned (healthAlert r) =
     [SendToRole 1 (rolePayload (healthAlert r) 1), SendToRole 2 (rolePayload (healthAlert r) 2)] \<and>
   (list_all (delivered nm) (planned (healthAlert r)) \<longrightarrow>
      dispatch_attempts (Inr nm) (healthAlert r) = planned (healthAlert r)) \<and>
   returns (processResults gnm (map Fulfilled rs) w) \<and>
   created_alerts (console (final (processResults gnm (map Fulfilled rs) w))) =
     created_alerts (console w) @ map (\<lambda>r. title_ar (healthAlert r)) (filter raises_alert rs) \<and>
   dispatched (final (processResults gnm (map Fulfilled rs) w)) =
     dispatched w @ concat (map (\<lambda>r. dispatch_attempts gnm (healthAlert r))
                              (filter raises_alert rs)) \<and>
   (list_all (\<lambda>r. status r = Healthy) rs \<longrightarrow>
      created_alerts (console (final (processResults gnm (map Fulfilled rs) w))) =
        created_alerts (console w) \<and>
      dispatched (final (processResults gnm (map Fulfilled rs) w)) = dispatched w) \<and>
   (raises_alert r \<longrightarrow>
      length (created_alerts (console (cycles n gnm [Fulfilled r] w))) =
        length (created_alerts (console w)) + n)"
proof -
  have all: "dispatch_attempts (Inr nm) (healthAlert r) = planned (healthAlert r)"
    if "list_all (delivered nm) (planned (healthAlert r))"
  proof -
    from that have "first_failure nm (planned (healthAlert r)) = None"
      by (simp add: first_failure_None_iff)
    then show ?thesis
      by (simp add: dispatch_attempts_def attempts_no_failure)
  qed
  have none: "filter raises_alert rs = []" if "list_all (\<lambda>r. status r = Healthy) rs"
    using that by (induction rs) (simp_all add: raises_alert_def)
  have rep: "length (concat (replicate n [x])) = n" for x :: string
    by (induction n) simp_all
  have n_alerts: "length (created_alerts (console (cycles n gnm [Fulfilled r] w))) =
      length (created_alerts (console w)) + n" if "raises_alert r"
    using that cycles_fields [of n gnm "[Fulfilled r]" w] by (simp add: rep)
  show ?thesis
    using processResults_fields [of gnm "map Fulfilled rs" w] all none n_alerts
    by (simp add: processHealthCheckResult_fields planned_healthAlert raises_alert_def)
qed

theorem processHealthCheckResult_one_alert_witness:
  "list_all (delivered working_manager) (planned (healthAlert slow_connection)) \<and>
   list_all (\<lambda>r. status r = Healthy) [checkDatabaseConnection 0 (Inr []) 200] \<and>
   raises_alert slow_connection \<and>
   map recipient (dispatched (final (processHealthCheckResult (Inr working_manager)
     slow_connection fresh_world))) = [(Role, 1), (Role, 2)] \<and>
   length (created_alerts (console (final (processHealthCheckResult (Inr working_manager)
     slow_connection fresh_world)))) = 1 \<and>
   created_alerts (console (final (processResults (Inr working_manager)
     (map Fulfilled [checkDatabaseConnection 0 (Inr []) 200]) fresh_world))) = [] \<and>
   length (created_alerts (console (cycles 3 (Inr working_manager)
     [Fulfilled slow_connection] fresh_world))) = 3"
proof -
  have all: "list_all (delivered working_manager) (planned (healthAlert slow_connection))"
    by (simp add: planned_healthAlert working_manager_delivers)
  have healthy: "list_all (\<lambda>r. status r = Healthy) [checkDatabaseConnection 0 (Inr []) 200]"
    by (simp add: checkDatabaseConnection_def)
  have bad: "raises_alert slow_connection"
    by (simp add: raises_alert_def slow_connection_status)
  have good: "\<not> raises_alert (checkDatabaseConnection 0 (Inr []) 200)"
    by (simp add: raises_alert_def checkDatabaseConnection_def)
  have empty: "console fresh_world = []" "dispatched fresh_world = []"
    by (simp_all add: fresh_world_def)
  from processHealthCheckResult_one_alert_per_bad_result
    [of "Inr working_manager" slow_connection fresh_world working_manager
      "[checkDatabaseConnection 0 (Inr []) 200]" 3]
  show ?thesis
    using all healthy bad good by (simp add: empty planned_healthAlert)
qed

section \<open>Properties: the alert built for a result, and its payload\<close>

lemma getAlertIcon_inherited:
  "t \<in> set object_prototype_members \<Longrightarrow> getAlertIcon t = Inherited_member t"
proof -
  assume m: "t \<in> set object_prototype_members"
  then have "map_of icons t = None"
    by (auto simp: icons_def object_prototype_members_def)
  with m show ?thesis
    by (simp add: getAlertIcon_def)
qed

text \<open>
  C3: for every health-check result, and so for every result with status critical or
  warning, the alert \<open>createHealthAlert\<close> builds has severity critical if and only if
  the status is critical and medium otherwise, the category critical or warning
  likewise, type system, and the target roles 1 and 2. The payload built from an alert,
  for a role or a user, has priority urgent for severity critical, high for severity
  high and normal otherwise, has \<open>sound\<close> set exactly when the severity is critical,
  and has the icon \<open>getAlertIcon\<close> gives for the type of the alert. That icon is
  chosen from the fixed table of six glyphs: every alert type is a key of the table (and
  no name of a member that objects inherit), so the payload of an alert carries the glyph
  of its type, the gear for a health alert; a type string that is no property of the
  table gets the fallback glyph.
\<close>

theorem healthAlert_and_payload_fields:
  "severity (healthAlert r) = (if status r = Critical then Sev_critical else Sev_medium) \<and>
   (severity (healthAlert r) = Sev_critical \<longleftrightarrow> status r = Critical) \<and>
   category (healthAlert r) = (if status r = Critical then Cat_critical else Cat_warning) \<and>
   type (healthAlert r) = System \<and>
   target_roles (healthAlert r) = Some [1, 2] \<and>
   priority (rolePayload a i) =
     (case severity a of Sev_critical \<Rightarrow> Urgent | Sev_high \<Rightarrow> High | _ \<Rightarrow> Normal) \<and>
   priority (userPayload a i) =
     (case severity a of Sev_critical \<Rightarrow> Urgent | Sev_high \<Rightarrow> High | _ \<Rightarrow> Normal) \<and>
   sound (rolePayload a i) = (severity a = Sev_critical) \<and>
   sound (userPayload a i) = (severity a = Sev_critical) \<and>
   icon (rolePayload a i) = getAlertIcon (type_string (type a)) \<and>
   icon (userPayload a i) = getAlertIcon (type_string (type a)) \<and>
   icon (rolePayload a i) \<in> Glyph ` snd ` set icons \<and>
   icon (userPayload a i) \<in> Glyph ` snd ` set icons \<and>
   icon (rolePayload (healthAlert r) i) = Glyph glyph_system \<and>
   type_string ty \<in> set (map fst icons) \<and>
   type_string ty \<notin> set object_prototype_members \<and>
   getAlertIcon (type_string System) = Glyph glyph_system \<and>
   getAlertIcon (type_string Production) = Glyph glyph_production \<and>
   getAlertIcon (type_string Quality) = Glyph glyph_quality \<and>
   getAlertIcon (type_string Inventory) = Glyph glyph_inventory \<and>
   getAlertIcon (type_string Maintenance) = Glyph glyph_maintenance \<and>
   getAlertIcon (type_string Security) = Glyph glyph_security \<and>
   (t \<notin> set (map fst icons) \<and> t \<notin> set object_prototype_members \<longrightarrow>
      getAlertIcon t = Glyph glyph_default)"
proof -
  have table:
    "getAlertIcon (type_string System) = Glyph glyph_system"
    "getAlertIcon (type_string Production) = Glyph glyph_production"
    "getAlertIcon (type_string Quality) = Glyph glyph_quality"
    "getAlertIcon (type_string Inventory) = Glyph glyph_inventory"
    "getAlertIcon (type_string Maintenance) = Glyph glyph_maintenance"
    "getAlertIcon (type_string Security) = Glyph glyph_security"
    by (simp_all add: getAlertIcon_def icons_def glyph_system_def glyph_production_def
        glyph_quality_def glyph_inventory_def glyph_maintenance_def glyph_security_def)
  have in_table: "getAlertIcon (type_string x) \<in> Glyph ` snd ` set icons" for x
    by (cases x) (simp_all add: table [simplified] icons_def)
  have keys: "type_string ty \<in> set (map fst icons)"
    "type_string ty \<notin> set object_prototype_members"
    by (cases ty; simp add: icons_def object_prototype_members_def)+
  have fallback: "getAlertIcon t = Glyph glyph_default"
    if "t \<notin> set (map fst icons)" "t \<notin> set object_prototype_members"
  proof -
    from that(1) have "map_of icons t = None"
      by (simp add: map_of_eq_None_iff)
    with that(2) show ?thesis
      by (simp add: getAlertIcon_def)
  qed
  have payload:
    "priority (rolePayload a i) =
       (case severity a of Sev_critical \<Rightarrow> Urgent | Sev_high \<Rightarrow> High | _ \<Rightarrow> Normal)"
    "priority (userPayload a i) =
       (case severity a of Sev_critical \<Rightarrow> Urgent | Sev_high \<Rightarrow> High | _ \<Rightarrow> Normal)"
    "sound (rolePayload a i) = (severity a = Sev_critical)"
    "sound (userPayload a i) = (severity a = Sev_critical)"
    "icon (rolePayload a i) = getAlertIcon (type_string (type a))"
    "icon (userPayload a i) = getAlertIcon (type_string (type a))"
    by (simp_all add: rolePayload_def userPayload_def split: alert_severity.splits)
  have glyphs:
    "icon (rolePayload a i) \<in> Glyph ` snd ` set icons"
    "icon (userPayload a i) \<in> Glyph ` snd ` set icons"
    unfolding payload(5,6) by (rule in_table)+
  have alert:
    "severity (healthAlert r) = (if status r = Critical then Sev_critical else Sev_medium)"
    "severity (healthAlert r) = Sev_critical \<longleftrightarrow> status r = Critical"
    "category (healthAlert r) = (if status r = Critical then Cat_critical else Cat_warning)"
    "type (healthAlert r) = System"
    "target_roles (healthAlert r) = Some [1, 2]"
    by (simp_all add: healthAlert_def)
  have gear: "icon (rolePayload (healthAlert r) i) = Glyph glyph_system"
    using table(1) by (simp add: rolePayload_def alert(4))
  show ?thesis
    using table keys fallback payload glyphs alert gear by blast
qed

theorem healthAlert_and_payload_fields_witness:
  "''audit'' \<notin> set (map fst icons) \<and> ''audit'' \<notin> set object_prototype_members \<and>
   getAlertIcon ''audit'' = Glyph glyph_default \<and>
   severity (healthAlert slow_connection) = Sev_critical \<and>
   priority (rolePayload (healthAlert slow_connection) 1) = Urgent \<and>
   sound (rolePayload (healthAlert slow_connection) 1) \<and>
   icon (rolePayload (healthAlert slow_connection) 1) = Glyph glyph_system"
proof -
  have a: "''audit'' \<notin> set (map fst icons) \<and> ''audit'' \<notin> set object_prototype_members"
    by (simp add: icons_def object_prototype_members_def)
  from healthAlert_and_payload_fields
    [of slow_connection "healthAlert slow_connection" 1 System "''audit''"]
  show ?thesis
    using a by (simp add: slow_connection_status)
qed

section \<open>Properties: the health-check cycle\<close>

lemma resume_connection_other [simp]:
  "query_of e \<noteq> Select1 \<Longrightarrow> resume_connection e p = p"
  by (cases "(e, p)" rule: resume_connection.cases) simp_all

lemma resume_performance_other [simp]:
  "query_of e = Select1 \<Longrightarrow> resume_performance e p = p"
  by (cases "(e, p)" rule: resume_performance.cases) simp_all

lemma issued_on_other [simp]:
  "query_of e = Select1 \<Longrightarrow> issued_on e p = []"
  by (cases "(e, p)" rule: issued_on.cases) simp_all

lemma resume_connection_settled [simp]:
  "resume_connection e (Connection_settled r) = Connection_settled r"
  by (cases e) simp

lemma resume_performance_settled [simp]:
  "resume_performance e (Performance_settled r) = Performance_settled r"
  by (cases "(e, Performance_settled r)" rule: resume_performance.cases) simp_all

lemma deliver_all_connection:
  "connection (deliver_all es c) = foldl (\<lambda>p e. resume_connection e p) (connection c) es"
  by (induction es arbitrary: c) (simp_all add: deliver_def)

lemma deliver_all_performance:
  "performance (deliver_all es c) = foldl (\<lambda>p e. resume_performance e p) (performance c) es"
  by (induction es arbitrary: c) (simp_all add: deliver_def)

lemma deliver_all_settled_promises:
  "memory (deliver_all es c) = memory c \<and> health (deliver_all es c) = health c"
  by (induction es arbitrary: c) (simp_all add: deliver_def)

lemma connection_own_completions:
  "foldl (\<lambda>p e. resume_connection e p) p es =
   foldl (\<lambda>p e. resume_connection e p) p (filter (\<lambda>e. query_of e = Select1) es)"
  by (induction es arbitrary: p) simp_all

lemma performance_own_completions:
  "foldl (\<lambda>p e. resume_performance e p) p es =
   foldl (\<lambda>p e. resume_performance e p) p (filter (\<lambda>e. query_of e \<noteq> Select1) es)"
  by (induction es arbitrary: p) simp_all

lemma connection_stays_settled:
  "foldl (\<lambda>p e. resume_connection e p) (Connection_settled r) es = Connection_settled r"
  by (induction es) simp_all

lemma performance_stays_settled:
  "foldl (\<lambda>p e. resume_performance e p) (Performance_settled r) es = Performance_settled r"
  by (induction es) simp_all

lemma connection_never_resumed:
  "filter (\<lambda>e. query_of e = Select1) es = [] \<Longrightarrow>
   connection (deliver_all es c) = connection c"
  by (simp add: deliver_all_connection connection_own_completions [of _ es])

lemma performHealthChecks_fields:
  "performHealthChecks gnm cs w = Returns (final (performHealthChecks gnm cs w))"
  "lastHealthStatus (self (final (performHealthChecks gnm cs w))) =
     cache_all (fulfilled cs) (lastHealthStatus (self w))"
  "created_alerts (console (final (performHealthChecks gnm cs w))) =
     created_alerts (console w) @ map (\<lambda>r. title_ar (healthAlert r))
                                    (filter raises_alert (fulfilled cs))"
  "dispatched (final (performHealthChecks gnm cs w)) =
     dispatched w @ concat (map (\<lambda>r. dispatch_attempts gnm (healthAlert r))
                              (filter raises_alert (fulfilled cs)))"
  "failed_checks (console (final (performHealthChecks gnm cs w))) =
     failed_checks (console w) @ rejected cs"
  using processResults_fields [of gnm cs w]
  by (simp_all add: performHealthChecks_processResults)

lemma probe_names:
  "checkName (checkDatabaseConnection s1 q1 t1) = ''Database Connection''"
  "checkName (checkDatabasePerformance s2 q2 q3 t2) = ''Database Performance''"
  "checkName (checkSystemMemory ar s3 m t3) = ''Memory Usage''"
  "checkName (checkSystemHealth ar s4 p t4) = ''System Health API''"
  by (simp_all add: checkDatabaseConnection_def checkDatabasePerformance_def
      checkSystemMemory_def checkSystemHealth_def Let_def split: sum.splits)

text \<open>
  C4, as stated, fails in what it says of a probe that throws internally: the error
  field of the result holds the message of the thrown error, which may be empty. A
  performance probe whose query throws an error without a message resolves to a critical
  result whose error field is the empty string (and whose details are empty as well).
\<close>

theorem checkDatabasePerformance_error_field_may_be_empty:
  "status silent_failure = Critical \<and> error silent_failure = Some [] \<and>
   details silent_failure = []"
  by (simp add: silent_failure_def checkDatabasePerformance_def)

text \<open>
  C4, amended: within one health-check cycle, all four probes are issued concurrently
  (when \<open>performHealthChecks\<close> starts to wait, both database probes have their query in
  flight and the two other probes have settled, whatever any of them will give) and each
  probe's outcome is captured independently (a probe is resumed by the completions of its
  own queries only, so its result is the same in whatever order the completions of the
  probes arrive): if one probe throws, either internally, yielding a result with status
  in {critical, unknown} whose error field holds the message of the thrown error (empty
  when that message is empty), or by rejecting outright, the other three probes still
  complete and their results are still processed; a probe that fails to complete is only
  skipped with a log entry and the cycle function itself never propagates an exception.
  While a query has not completed, the cycle function waits.
\<close>

theorem performHealthChecks_isolates_probe_failures:
  "connection (start_checks ar i) = Awaiting_select1 (connection_started i) \<and>
   performance (start_checks ar i) = Awaiting_connections (performance_started i) \<and>
   issued (start_checks ar i) = [Select1, ActiveConnections] \<and>
   memory (start_checks ar i) =
     checkSystemMemory ar (memory_started i) (memory_sampled i) (memory_finished i) \<and>
   health (start_checks ar i) =
     checkSystemHealth ar (health_started i) (health_read i) (health_finished i) \<and>
   connection (deliver_all es c) =
     connection (deliver_all (filter (\<lambda>e. query_of e = Select1) es) c) \<and>
   performance (deliver_all es c) =
     performance (deliver_all (filter (\<lambda>e. query_of e \<noteq> Select1) es) c) \<and>
   memory (deliver_all es c) = memory c \<and>
   health (deliver_all es c) = health c \<and>
   (filter (\<lambda>e. query_of e = Select1) es = Completion Select1 o1 t1 # es1 \<and>
    filter (\<lambda>e. query_of e \<noteq> Select1) es =
      Completion ActiveConnections (Inr ac) t2 # Completion DatabaseSize o3 t3 # es2 \<longrightarrow>
    healthCheckTick gnm ar i es w =
      Some (performHealthChecks gnm
        [Fulfilled (checkDatabaseConnection (connection_started i) o1 t1),
         Fulfilled (checkDatabasePerformance (performance_started i) (Inr ac) o3 t3),
         Fulfilled (checkSystemMemory ar (memory_started i) (memory_sampled i)
                      (memory_finished i)),
         Fulfilled (checkSystemHealth ar (health_started i) (health_read i)
                      (health_finished i))] w)) \<and>
   (filter (\<lambda>e. query_of e = Select1) es = Completion Select1 o1 t1 # es1 \<and>
    filter (\<lambda>e. query_of e \<noteq> Select1) es = Completion ActiveConnections (Inl e) t2 # es2 \<longrightarrow>
    healthCheckTick gnm ar i es w =
      Some (performHealthChecks gnm
        [Fulfilled (checkDatabaseConnection (connection_started i) o1 t1),
         Fulfilled (checkDatabasePerformance (performance_started i) (Inl e) (Inl e) t2),
         Fulfilled (checkSystemMemory ar (memory_started i) (memory_sampled i)
                      (memory_finished i)),
         Fulfilled (checkSystemHealth ar (health_started i) (health_read i)
                      (health_finished i))] w)) \<and>
   (filter (\<lambda>e. query_of e = Select1) es = [] \<longrightarrow> healthCheckTick gnm ar i es w = None) \<and>
   performHealthChecks gnm cs w = Returns (final (performHealthChecks gnm cs w)) \<and>
   lastHealthStatus (self (final (performHealthChecks gnm cs w))) =
     cache_all (fulfilled cs) (lastHealthStatus (self w)) \<and>
   created_alerts (console (final (performHealthChecks gnm cs w))) =
     created_alerts (console w) @ map (\<lambda>r. title_ar (healthAlert r))
                                    (filter raises_alert (fulfilled cs)) \<and>
   dispatched (final (performHealthChecks gnm cs w)) =
     dispatched w @ concat (map (\<lambda>r. dispatch_attempts gnm (healthAlert r))
                              (filter raises_alert (fulfilled cs))) \<and>
   failed_checks (console (final (performHealthChecks gnm cs w))) =
     failed_checks (console w) @ rejected cs \<and>
   lastHealthStatus (self (final (performHealthChecks gnm
       [Rejected e, Fulfilled r1, Fulfilled r2, Fulfilled r3] w))) =
     cache_all [r1, r2, r3] (lastHealthStatus (self w)) \<and>
   map fst (cache_all
     [checkDatabaseConnection s1 q1 n1, checkDatabasePerformance s2 q2 q3 n2,
      checkSystemMemory ar s3 m n3, checkSystemHealth ar s4 p n4] []) =
     [''Database Connection'', ''Database Performance'', ''Memory Usage'',
      ''System Health API''] \<and>
   status (checkDatabaseConnection s (Inl e) t) = Critical \<and>
   error (checkDatabaseConnection s (Inl e) t) = Some (error_message e) \<and>
   status (checkDatabasePerformance s (Inl e) q t) = Critical \<and>
   error (checkDatabasePerformance s (Inl e) q t) = Some (error_message e) \<and>
   status (checkDatabasePerformance s (Inr ac) (Inl e) t) = Critical \<and>
   error (checkDatabasePerformance s (Inr ac) (Inl e) t) = Some (error_message e) \<and>
   status (checkSystemMemory ar s (Inl e) t) = Unknown \<and>
   error (checkSystemMemory ar s (Inl e) t) = Some (error_message e) \<and>
   status (checkSystemHealth ar s (Inl e) t) = Critical \<and>
   error (checkSystemHealth ar s (Inl e) t) = Some (error_message e)"
proof -
  let ?own = "filter (\<lambda>e. query_of e = Select1) es"
  let ?other = "filter (\<lambda>e. query_of e \<noteq> Select1) es"
  have start:
    "connection (start_checks ar i) = Awaiting_select1 (connection_started i)"
    "performance (start_checks ar i) = Awaiting_connections (performance_started i)"
    "issued (start_checks ar i) = [Select1, ActiveConnections]"
    "memory (start_checks ar i) =
       checkSystemMemory ar (memory_started i) (memory_sampled i) (memory_finished i)"
    "health (start_checks ar i) =
       checkSystemHealth ar (health_started i) (health_read i) (health_finished i)"
    by (simp_all add: start_checks_def)
  have own:
    "connection (deliver_all es c) = connection (deliver_all ?own c)"
    "performance (deliver_all es c) = performance (deliver_all ?other c)"
    for c
    using connection_own_completions [of "connection c" es]
      performance_own_completions [of "performance c" es]
    by (simp_all add: deliver_all_connection deliver_all_performance)
  have rest: "memory (deliver_all es c) = memory c" "health (deliver_all es c) = health c"
    for c
    using deliver_all_settled_promises [of es c] by simp_all
  have conn: "connection (deliver_all es (start_checks ar i)) =
      Connection_settled (checkDatabaseConnection (connection_started i) o1 t1)"
    if "?own = Completion Select1 o1 t1 # es1"
    unfolding own(1) that
    by (simp add: deliver_all_connection deliver_def start connection_stays_settled)
  have perf2: "performance (deliver_all es (start_checks ar i)) =
      Performance_settled (checkDatabasePerformance (performance_started i) (Inr ac) o3 t3)"
    if "?other = Completion ActiveConnections (Inr ac) t2 # Completion DatabaseSize o3 t3 # es2"
    unfolding own(2) that
    by (simp add: deliver_all_performance deliver_def start performance_stays_settled)
  have perf1: "performance (deliver_all es (start_checks ar i)) =
      Performance_settled (checkDatabasePerformance (performance_started i) (Inl e) (Inl e) t2)"
    if "?other = Completion ActiveConnections (Inl e) t2 # es2"
    unfolding own(2) that
    by (simp add: deliver_all_performance deliver_def start performance_stays_settled)
  have settled2: "healthCheckTick gnm ar i es w =
      Some (performHealthChecks gnm
        [Fulfilled (checkDatabaseConnection (connection_started i) o1 t1),
         Fulfilled (checkDatabasePerformance (performance_started i) (Inr ac) o3 t3),
         Fulfilled (checkSystemMemory ar (memory_started i) (memory_sampled i)
                      (memory_finished i)),
         Fulfilled (checkSystemHealth ar (health_started i) (health_read i)
                      (health_finished i))] w)"
    if "?own = Completion Select1 o1 t1 # es1"
       "?other = Completion ActiveConnections (Inr ac) t2 # Completion DatabaseSize o3 t3 # es2"
    using conn [OF that(1)] perf2 [OF that(2)]
    by (simp add: healthCheckTick_def allSettled_def rest start)
  have settled1: "healthCheckTick gnm ar i es w =
      Some (performHealthChecks gnm
        [Fulfilled (checkDatabaseConnection (connection_started i) o1 t1),
         Fulfilled (checkDatabasePerformance (performance_started i) (Inl e) (Inl e) t2),
         Fulfilled (checkSystemMemory ar (memory_started i) (memory_sampled i)
                      (memory_finished i)),
         Fulfilled (checkSystemHealth ar (health_started i) (health_read i)
                      (health_finished i))] w)"
    if "?own = Completion Select1 o1 t1 # es1"
       "?other = Completion ActiveConnections (Inl e) t2 # es2"
    using conn [OF that(1)] perf1 [OF that(2)]
    by (simp add: healthCheckTick_def allSettled_def rest start)
  have waits: "healthCheckTick gnm ar i es w = None" if "?own = []"
    using connection_never_resumed [OF that, of "start_checks ar i"]
    by (simp add: healthCheckTick_def allSettled_def start)
  have cycle: "map fst (cache_all
     [checkDatabaseConnection s1 q1 n1, checkDatabasePerformance s2 q2 q3 n2,
      checkSystemMemory ar s3 m n3, checkSystemHealth ar s4 p n4] []) =
     [''Database Connection'', ''Database Performance'', ''Memory Usage'',
      ''System Health API'']"
    by (simp add: cache_all_def probe_names)
  have probes:
    "status (checkDatabaseConnection s (Inl e) t) = Critical"
    "error (checkDatabaseConnection s (Inl e) t) = Some (error_message e)"
    "status (checkDatabasePerformance s (Inl e) q t) = Critical"
    "error (checkDatabasePerformance s (Inl e) q t) = Some (error_message e)"
    "status (checkDatabasePerformance s (Inr ac) (Inl e) t) = Critical"
    "error (checkDatabasePerformance s (Inr ac) (Inl e) t) = Some (error_message e)"
    "status (checkSystemMemory ar s (Inl e) t) = Unknown"
    "error (checkSystemMemory ar s (Inl e) t) = Some (error_message e)"
    "status (checkSystemHealth ar s (Inl e) t) = Critical"
    "error (checkSystemHealth ar s (Inl e) t) = Some (error_message e)"
    by (simp_all add: checkDatabaseConnection_def checkDatabasePerformance_def
        checkSystemMemory_def checkSystemHealth_def)
  have one_rejected:
    "lastHealthStatus (self (final (performHealthChecks gnm
       [Rejected e, Fulfilled r1, Fulfilled r2, Fulfilled r3] w))) =
     cache_all [r1, r2, r3] (lastHealthStatus (self w))"
    by (simp add: performHealthChecks_fields(2))
  show ?thesis
    using start own [of c] rest [of c] settled2 settled1 waits
      performHealthChecks_fields [of gnm cs w] one_rejected cycle probes
    by blast
qed

theorem performHealthChecks_isolates_probe_failures_witness:
  "filter (\<lambda>e. query_of e = Select1) sample_completions =
     [Completion Select1 (Inl (Error ''connection refused'')) 7] \<and>
   filter (\<lambda>e. query_of e \<noteq> Select1) sample_completions =
     [Completion ActiveConnections (Inr []) 5, Completion DatabaseSize (Inr []) 9] \<and>
   filter (\<lambda>e. query_of e \<noteq> Select1) failing_completions =
     [Completion ActiveConnections (Inl (Error ''timeout'')) 5] \<and>
   filter (\<lambda>e. query_of e = Select1) (take 1 failing_completions) = [] \<and>
   healthCheckTick (Inr working_manager) exact_arith sample_start sample_completions
       fresh_world =
     Some (performHealthChecks (Inr working_manager)
        [Fulfilled (checkDatabaseConnection 0 (Inl (Error ''connection refused'')) 7),
         Fulfilled (checkDatabasePerformance 1 (Inr []) (Inr []) 9),
         Fulfilled (memory (start_checks exact_arith sample_start)),
         Fulfilled (health (start_checks exact_arith sample_start))] fresh_world) \<and>
   healthCheckTick (Inr working_manager) exact_arith sample_start failing_completions
       fresh_world =
     Some (performHealthChecks (Inr working_manager)
        [Fulfilled (checkDatabaseConnection 0 (Inr []) 7),
         Fulfilled (checkDatabasePerformance 1 (Inl (Error ''timeout''))
                      (Inl (Error ''timeout'')) 5),
         Fulfilled (memory (start_checks exact_arith sample_start)),
         Fulfilled (health (start_checks exact_arith sample_start))] fresh_world) \<and>
   healthCheckTick (Inr working_manager) exact_arith sample_start (take 1 failing_completions)
       fresh_world = None"
proof -
  have f1: "filter (\<lambda>e. query_of e = Select1) sample_completions =
      Completion Select1 (Inl (Error ''connection refused'')) 7 # []"
    by (simp add: sample_completions_def)
  have f2: "filter (\<lambda>e. query_of e \<noteq> Select1) sample_completions =
      Completion ActiveConnections (Inr []) 5 # Completion DatabaseSize (Inr []) 9 # []"
    by (simp add: sample_completions_def)
  have g1: "filter (\<lambda>e. query_of e = Select1) failing_completions =
      Completion Select1 (Inr []) 7 # []"
    by (simp add: failing_completions_def)
  have g2: "filter (\<lambda>e. query_of e \<noteq> Select1) failing_completions =
      Completion ActiveConnections (Inl (Error ''timeout'')) 5 # []"
    by (simp add: failing_completions_def)
  have h: "filter (\<lambda>e. query_of e = Select1) (take 1 failing_completions) = []"
    by (simp add: failing_completions_def)
  have s: "connection_started sample_start = 0" "performance_started sample_start = 1"
    by (simp_all add: sample_start_def)
  note t = performHealthChecks_isolates_probe_failures
  from t [where es = sample_completions and i = sample_start and ar = exact_arith
        and gnm = "Inr working_manager" and w = fresh_world
        and ?o1.0 = "Inl (Error ''connection refused'')" and ?t1.0 = 7 and ?es1.0 = "[]"
        and ac = "[]" and ?t2.0 = 5 and ?o3.0 = "Inr []" and ?t3.0 = 9 and ?es2.0 = "[]"]
    f1 f2
  have a: "healthCheckTick (Inr working_manager) exact_arith sample_start sample_completions
       fresh_world =
     Some (performHealthChecks (Inr working_manager)
        [Fulfilled (checkDatabaseConnection 0 (Inl (Error ''connection refused'')) 7),
         Fulfilled (checkDatabasePerformance 1 (Inr []) (Inr []) 9),
         Fulfilled (memory (start_checks exact_arith sample_start)),
         Fulfilled (health (start_checks exact_arith sample_start))] fresh_world)"
    by (simp add: s)
  from t [where es = failing_completions and i = sample_start and ar = exact_arith
        and gnm = "Inr working_manager" and w = fresh_world
        and ?o1.0 = "Inr []" and ?t1.0 = 7 and ?es1.0 = "[]"
        and e = "Error ''timeout''" and ?t2.0 = 5 and ?es2.0 = "[]"]
    g1 g2
  have b: "healthCheckTick (Inr working_manager) exact_arith sample_start failing_completions
       fresh_world =
     Some (performHealthChecks (Inr working_manager)
        [Fulfilled (checkDatabaseConnection 0 (Inr []) 7),
         Fulfilled (checkDatabasePerformance 1 (Inl (Error ''timeout''))
                      (Inl (Error ''timeout'')) 5),
         Fulfilled (memory (start_checks exact_arith sample_start)),
         Fulfilled (health (start_checks exact_arith sample_start))] fresh_world)"
    by (simp add: s)
  from t [where es = "take 1 failing_completions" and i = sample_start and ar = exact_arith
        and gnm = "Inr working_manager" and w = fresh_world] h
  have c: "healthCheckTick (Inr working_manager) exact_arith sample_start
      (take 1 failing_completions) fresh_world = None"
    by simp
  show ?thesis
    using f1 f2 g2 h a b c by simp
qed

section \<open>Properties: classification by the probes\<close>

text \<open>
  C5: for a round trip of \<open>d\<close> milliseconds, the Database Connection check is critical
  if \<open>d > 5000\<close>, warning if \<open>1000 < d \<le> 5000\<close> and healthy otherwise (6000 is
  critical, 1500 warning, 200 healthy); if the query throws, the status is critical and
  the error field holds the message of the error.
\<close>

theorem checkDatabaseConnection_classifies:
  fixes s d :: int
  shows
  "(status (checkDatabaseConnection s (Inr rows) (s + d)) = Critical \<longleftrightarrow> d > 5000) \<and>
   (status (checkDatabaseConnection s (Inr rows) (s + d)) = Warning \<longleftrightarrow> 1000 < d \<and> d \<le> 5000) \<and>
   (status (checkDatabaseConnection s (Inr rows) (s + d)) = Healthy \<longleftrightarrow> d \<le> 1000) \<and>
   duration (checkDatabaseConnection s (Inr rows) (s + d)) = d \<and>
   error (checkDatabaseConnection s (Inr rows) (s + d)) = None \<and>
   status (checkDatabaseConnection s (Inr rows) (s + 6000)) = Critical \<and>
   status (checkDatabaseConnection s (Inr rows) (s + 1500)) = Warning \<and>
   status (checkDatabaseConnection s (Inr rows) (s + 200)) = Healthy \<and>
   status (checkDatabaseConnection s (Inl e) t) = Critical \<and>
   error (checkDatabaseConnection s (Inl e) t) = Some (error_message e)"
  by (simp add: checkDatabaseConnection_def Let_def)

text \<open>
  C6: for a query duration of \<open>d\<close> milliseconds, the Database Performance check is
  warning if and only if \<open>500 < d \<le> 2000\<close>, critical if \<open>d > 2000\<close> and healthy
  otherwise; if either of its two queries throws, the status is critical and the error
  field holds the message of the error.
\<close>

theorem checkDatabasePerformance_classifies:
  fixes s d :: int
  shows
  "(status (checkDatabasePerformance s (Inr ac) (Inr ds) (s + d)) = Warning
      \<longleftrightarrow> 500 < d \<and> d \<le> 2000) \<and>
   (status (checkDatabasePerformance s (Inr ac) (Inr ds) (s + d)) = Critical \<longleftrightarrow> d > 2000) \<and>
   (status (checkDatabasePerformance s (Inr ac) (Inr ds) (s + d)) = Healthy \<longleftrightarrow> d \<le> 500) \<and>
   duration (checkDatabasePerformance s (Inr ac) (Inr ds) (s + d)) = d \<and>
   error (checkDatabasePerformance s (Inr ac) (Inr ds) (s + d)) = None \<and>
   status (checkDatabasePerformance s (Inr ac) (Inr ds) (s + 1500)) = Warning \<and>
   status (checkDatabasePerformance s (Inl e) q t) = Critical \<and>
   error (checkDatabasePerformance s (Inl e) q t) = Some (error_message e) \<and>
   status (checkDatabasePerformance s (Inr ac) (Inl e) t) = Critical \<and>
   error (checkDatabasePerformance s (Inr ac) (Inl e) t) = Some (error_message e)"
  by (simp add: checkDatabasePerformance_def Let_def)

text \<open>
  C7: for a heap usage percentage \<open>p\<close> (heap used divided by heap total, times 100, as
  the runtime computes it), the Memory Usage check is critical if \<open>p > 95\<close>, warning if
  \<open>80 < p \<le> 95\<close> and healthy otherwise (96 is critical, 85 warning, 50 healthy). The
  check does not throw: if sampling throws, it resolves to a result with status unknown
  whose error field holds the message of the error.
\<close>

theorem checkSystemMemory_classifies:
  "(memoryStatus p = Critical \<longleftrightarrow> p > 95) \<and>
   (memoryStatus p = Warning \<longleftrightarrow> 80 < p \<and> p \<le> 95) \<and>
   (memoryStatus p = Healthy \<longleftrightarrow> p \<le> 80) \<and>
   memoryStatus 96 = Critical \<and> memoryStatus 85 = Warning \<and> memoryStatus 50 = Healthy \<and>
   status (checkSystemMemory ar s (Inr m) t) = memoryStatus (usagePercent ar m) \<and>
   usagePercent ar m = fmul ar (fdiv ar (real (heapUsed m)) (real (heapTotal m))) 100 \<and>
   usagePercent exact_arith m = real (heapUsed m) / real (heapTotal m) * 100 \<and>
   error (checkSystemMemory ar s (Inr m) t) = None \<and>
   status (checkSystemMemory ar s (Inl e) t) = Unknown \<and>
   error (checkSystemMemory ar s (Inl e) t) = Some (error_message e)"
  by (simp add: checkSystemMemory_def memoryStatus_def usagePercent_def exact_arith_def)

section \<open>Properties: the scheduler and the status report\<close>

lemma stopMonitoring_outcome:
  "stopMonitoring w =
     Returns (w\<lparr>self := (self w)\<lparr>healthCheckInterval := None, monitoringInterval := None\<rparr>,
               intervals := filter (\<lambda>t. Some (fst t) \<noteq> healthCheckInterval (self w) \<and>
                                         Some (fst t) \<noteq> monitoringInterval (self w))
                              (intervals w),
               console := console w @ [Log_monitoring_stopped]\<rparr>)"
proof -
  have f: "filter (\<lambda>t. fst t \<noteq> a) (filter (\<lambda>t. fst t \<noteq> b) xs) =
           filter (\<lambda>t. fst t \<noteq> b \<and> fst t \<noteq> a) xs" for a b :: timer and xs :: "(timer \<times> 'x) list"
    by (induction xs) auto
  show ?thesis
    by (cases "healthCheckInterval (self w)"; cases "monitoringInterval (self w)")
      (simp_all add: stopMonitoring_def clearInterval_def console_write_def f)
qed

text \<open>
  C8: \<open>stopMonitoring\<close> is idempotent. No call throws; after any call both timer
  handles are null and \<open>getSystemStatus\<close> reports both timers unarmed; a second call in
  a row leaves the monitor and the armed intervals as the first call left them (it only
  writes its line to the console again).
\<close>

theorem stopMonitoring_idempotent:
  "stopMonitoring w = Returns (final (stopMonitoring w)) \<and>
   healthCheckInterval (self (final (stopMonitoring w))) = None \<and>
   monitoringInterval (self (final (stopMonitoring w))) = None \<and>
   monitoring (fst (getSystemStatus (final (stopMonitoring w)))) = False \<and>
   healthChecks (fst (getSystemStatus (final (stopMonitoring w)))) = False \<and>
   lastHealthStatus (self (final (stopMonitoring w))) = lastHealthStatus (self w) \<and>
   alertRules (self (final (stopMonitoring w))) = alertRules (self w) \<and>
   intervals (final (stopMonitoring w)) =
     filter (\<lambda>t. Some (fst t) \<noteq> healthCheckInterval (self w) \<and>
                  Some (fst t) \<noteq> monitoringInterval (self w)) (intervals w) \<and>
   stopMonitoring (final (stopMonitoring w)) =
     Returns (console_write Log_monitoring_stopped (final (stopMonitoring w))) \<and>
   self (final (stopMonitoring (final (stopMonitoring w)))) = self (final (stopMonitoring w)) \<and>
   intervals (final (stopMonitoring (final (stopMonitoring w)))) =
     intervals (final (stopMonitoring w))"
  by (simp add: stopMonitoring_outcome getSystemStatus_def console_write_def)







text \<open>
  C10: for every health-check result whose status is unknown,
  \<open>processHealthCheckResult\<close> creates no alert and makes no dispatch call: it returns
  in the world it started from with the result stored in the cache under its check name,
  and nothing else changed (the row it assembles for the health-check table is dropped).
\<close>

theorem processHealthCheckResult_unknown_only_cached:
  assumes "status r = Unknown"
  shows
  "processHealthCheckResult gnm r w =
     Returns (w\<lparr>self := (self w)\<lparr>lastHealthStatus :=
                AList.update (checkName r) r (lastHealthStatus (self w))\<rparr>\<rparr>) \<and>
   console (final (processHealthCheckResult gnm r w)) = console w \<and>
   created_alerts (console (final (processHealthCheckResult gnm r w))) =
     created_alerts (console w) \<and>
   dispatched (final (processHealthCheckResult gnm r w)) = dispatched w \<and>
   system_alerts (final (processHealthCheckResult gnm r w)) = system_alerts w \<and>
   system_health_checks (final (processHealthCheckResult gnm r w)) = system_health_checks w"
  using assms
  by (simp add: processHealthCheckResult_outcome raises_alert_def cache_result_def)

theorem processHealthCheckResult_unknown_witness:
  "status failed_sampling = Unknown \<and>
   console (final (processHealthCheckResult (Inr working_manager) failed_sampling
     fresh_world)) = [] \<and>
   dispatched (final (processHealthCheckResult (Inr working_manager) failed_sampling
     fresh_world)) = [] \<and>
   map fst (lastHealthStatus (self (final (processHealthCheckResult (Inr working_manager)
     failed_sampling fresh_world)))) = [''Memory Usage'']"
proof -
  have u: "status failed_sampling = Unknown"
    by (simp add: failed_sampling_def checkSystemMemory_def)
  have n: "checkName failed_sampling = ''Memory Usage''"
    by (simp add: failed_sampling_def checkSystemMemory_def)
  from processHealthCheckResult_unknown_only_cached [OF u, of "Inr working_manager" fresh_world]
  show ?thesis
    using u by (simp add: n fresh_world_def new_monitor_def)
qed

end
